theory Spec2Isabelle
  imports Complex_Main
begin

section \<open>Values, environment and HTTP responses\<close>

text \<open>
  The server keeps three JSON arrays (clients, projects, invoices) on disk; every
  repository call reads the whole array and writes the whole array back.  The arrays are
  lists here, a missing or corrupt file being the empty list, and every handler is a
  function from the database before the request to the response and the database after it.

  Numbers come in two readings.  Where records only carry their numbers, and where a
  computation is looked at on values on which exact and double arithmetic agree, a number
  is an exact rational (\<open>number\<close>); this reading has finite numbers only, so it leaves out
  the infinity that an out-of-range literal such as \<open>1e400\<close> becomes when read.  The amounts that the two invoice routes compute
  from an arbitrary request are IEEE-754 doubles; they are modelled as such, with what JSON
  keeps of them, in the sections on doubles further down.
  Request bodies are typed: a field is absent (\<open>None\<close>) or carries a value of the type
  the data model gives it.
\<close>

type_synonym number = rat

text \<open>
  What a handler takes from outside the program: the string \<open>generateId()\<close> returns, the
  value of \<open>new Date().toISOString()\<close> (all calls within one request give the same
  instant), the ISO date thirty days later, the clock in milliseconds and the parser behind
  \<open>new Date(s)\<close> (\<open>None\<close> for an invalid date).
\<close>

record env =
  genId :: string
  nowISO :: string
  due30ISO :: string
  nowMs :: int
  parseDate :: "string \<Rightarrow> int option"

datatype 'a response = Response (code: nat) (message: string) (payload: "'a option")

text \<open>JavaScript truthiness of an optional string or number, and \<open>x || d\<close>.\<close>

definition truthy_str :: "string option \<Rightarrow> bool" where
  "truthy_str x = (case x of None \<Rightarrow> False | Some s \<Rightarrow> s \<noteq> [])"

definition str_or :: "string option \<Rightarrow> string \<Rightarrow> string" where
  "str_or x d = (case x of None \<Rightarrow> d | Some s \<Rightarrow> if s \<noteq> [] then s else d)"

definition num_or :: "number option \<Rightarrow> number \<Rightarrow> number" where
  "num_or x d = (case x of None \<Rightarrow> d | Some v \<Rightarrow> if v \<noteq> 0 then v else d)"

text \<open>\<open>Array.prototype.findIndex\<close>; \<open>None\<close> stands for the result \<open>-1\<close>.\<close>

fun findIndex :: "('a \<Rightarrow> bool) \<Rightarrow> 'a list \<Rightarrow> nat option" where
  "findIndex P [] = None"
| "findIndex P (x # xs) =
     (if P x then Some 0 else (case findIndex P xs of None \<Rightarrow> None | Some i \<Rightarrow> Some (Suc i)))"

text \<open>\<open>xs.splice(i, 1)\<close> for an index inside the array.\<close>

definition splice1 :: "nat \<Rightarrow> 'a list \<Rightarrow> 'a list" where
  "splice1 i xs = take i xs @ drop (Suc i) xs"

text \<open>\<open>x.f\<close> where the spread \<open>{...old, ...patch}\<close> takes \<open>f\<close> from the patch when it has one.\<close>

definition ov :: "'a option \<Rightarrow> 'a \<Rightarrow> 'a" where
  "ov x old = (case x of None \<Rightarrow> old | Some v \<Rightarrow> v)"

text \<open>\<open>String(n)\<close> for a natural number and \<open>s.padStart(4, '0')\<close>.\<close>

definition digit_char :: "nat \<Rightarrow> char" where
  "digit_char k = ''0123456789'' ! k"

fun String_nat :: "nat \<Rightarrow> string" where
  "String_nat n =
     (if n < 10 then [digit_char n] else String_nat (n div 10) @ [digit_char (n mod 10)])"

declare String_nat.simps [simp del]

definition padStart4 :: "string \<Rightarrow> string" where
  "padStart4 s = replicate (4 - length s) (CHR ''0'') @ s"

section \<open>Clients\<close>

record client =
  c_id :: string
  c_name :: string
  c_email :: string
  c_company :: string
  c_whatsapp :: string
  c_phone :: string
  c_address :: string
  c_notes :: string
  c_status :: string
  c_totalProjects :: number
  c_totalRevenue :: number
  c_createdAt :: string
  c_updatedAt :: string

record client_body =
  cb_name :: "string option"
  cb_email :: "string option"
  cb_company :: "string option"
  cb_whatsapp :: "string option"
  cb_phone :: "string option"
  cb_address :: "string option"
  cb_notes :: "string option"
  cb_status :: "string option"

text \<open>
  \<open>clientDb.create\<close>: the spread \<open>{id: generateId(), ...clientData, createdAt, updatedAt}\<close>.
  The route passes a record that already has an \<open>id\<close>, which the spread keeps.
\<close>

definition clientDb_create :: "env \<Rightarrow> client list \<Rightarrow> client \<Rightarrow> client \<times> client list" where
  "clientDb_create e clients clientData =
     (let newClient = clientData\<lparr>c_createdAt := nowISO e, c_updatedAt := nowISO e\<rparr>
      in (newClient, clients @ [newClient]))"

definition clientDb_findById :: "client list \<Rightarrow> string \<Rightarrow> client option" where
  "clientDb_findById clients i = find (\<lambda>c. c_id c = i) clients"

section \<open>The database\<close>

text \<open>
  The object a route hands to \<open>projectDb.create\<close> or \<open>invoiceDb.create\<close> has no \<open>id\<close>;
  the stored record is that object extended with the generated one.
\<close>

record project_milestone =
  m_title :: string
  m_dueDate :: string
  m_completed :: bool

record project_data =
  p_title :: string
  p_description :: string
  p_clientId :: string
  p_startDate :: string
  p_endDate :: "string option"
  p_budget :: number
  p_status :: string
  p_priority :: string
  p_tags :: "string list"
  p_milestones :: "project_milestone list"
  p_progress :: number
  p_totalHours :: number
  p_createdAt :: string
  p_updatedAt :: string

record project = project_data +
  p_id :: string

record item =
  it_description :: string
  it_quantity :: number
  it_rate :: number
  it_amount :: number

record invoice_data =
  i_invoiceNumber :: string
  i_clientId :: string
  i_projectId :: "string option"
  i_items :: "item list"
  i_subtotal :: number
  i_discount :: number
  i_discountAmount :: number
  i_tax :: number
  i_taxAmount :: number
  i_total :: number
  i_status :: string
  i_dueDate :: string
  i_notes :: string
  i_paidAmount :: number
  i_createdAt :: string
  i_updatedAt :: string

record invoice = invoice_data +
  i_id :: string

record db =
  clients :: "client list"
  projects :: "project list"
  invoices :: "invoice list"

section \<open>POST /api/clients\<close>

definition post_client :: "env \<Rightarrow> db \<Rightarrow> client_body \<Rightarrow> client response \<times> db" where
  "post_client e d body =
     (if \<not> truthy_str (cb_name body) \<or> \<not> truthy_str (cb_email body)
      then (Response 400 ''Name and email are required'' None, d)
      else
        (case find (\<lambda>c. Some (c_email c) = cb_email body) (clients d) of
           Some existingClient \<Rightarrow>
             (Response 400 ''Client with this email already exists'' None, d)
         | None \<Rightarrow>
             (let newClient = \<lparr>
                    c_id = genId e,
                    c_name = the (cb_name body),
                    c_email = the (cb_email body),
                    c_company = str_or (cb_company body) '''',
                    c_whatsapp = str_or (cb_whatsapp body) '''',
                    c_phone = str_or (cb_phone body) '''',
                    c_address = str_or (cb_address body) '''',
                    c_notes = str_or (cb_notes body) '''',
                    c_status = str_or (cb_status body) ''active'',
                    c_totalProjects = 0,
                    c_totalRevenue = 0,
                    c_createdAt = nowISO e,
                    c_updatedAt = nowISO e \<rparr>;
                  (client, clients') = clientDb_create e (clients d) newClient
              in (Response 201 ''Client created successfully'' (Some client),
                  d\<lparr>clients := clients'\<rparr>))))"

section \<open>Invoices: repository\<close>

definition invoiceDb_create ::
  "env \<Rightarrow> invoice list \<Rightarrow> invoice_data \<Rightarrow> invoice \<times> invoice list" where
  "invoiceDb_create e invs invoiceData =
     (let newInvoice = invoice_data.extend
            (invoiceData\<lparr>i_createdAt := nowISO e, i_updatedAt := nowISO e\<rparr>)
            (invoice.fields (genId e))
      in (newInvoice, invs @ [newInvoice]))"

definition invoiceDb_findById :: "invoice list \<Rightarrow> string \<Rightarrow> invoice option" where
  "invoiceDb_findById invs i = find (\<lambda>x. i_id x = i) invs"

text \<open>
  The object given to \<open>invoiceDb.update\<close>: each field of an invoice, present or not.
\<close>

record invoice_patch =
  u_id :: "string option"
  u_invoiceNumber :: "string option"
  u_clientId :: "string option"
  u_projectId :: "string option option"
  u_items :: "item list option"
  u_subtotal :: "number option"
  u_discount :: "number option"
  u_discountAmount :: "number option"
  u_tax :: "number option"
  u_taxAmount :: "number option"
  u_total :: "number option"
  u_status :: "string option"
  u_dueDate :: "string option"
  u_notes :: "string option"
  u_paidAmount :: "number option"
  u_createdAt :: "string option"
  u_updatedAt :: "string option"

definition empty_patch :: invoice_patch where
  "empty_patch = \<lparr> u_id = None, u_invoiceNumber = None, u_clientId = None,
     u_projectId = None, u_items = None, u_subtotal = None, u_discount = None,
     u_discountAmount = None, u_tax = None, u_taxAmount = None, u_total = None,
     u_status = None, u_dueDate = None, u_notes = None, u_paidAmount = None,
     u_createdAt = None, u_updatedAt = None \<rparr>"

text \<open>The spread \<open>{...invoices[k], ...updateData, updatedAt: now}\<close>.\<close>

definition spread_invoice :: "env \<Rightarrow> invoice \<Rightarrow> invoice_patch \<Rightarrow> invoice" where
  "spread_invoice e old u = old\<lparr>
     i_id := ov (u_id u) (i_id old),
     i_invoiceNumber := ov (u_invoiceNumber u) (i_invoiceNumber old),
     i_clientId := ov (u_clientId u) (i_clientId old),
     i_projectId := ov (u_projectId u) (i_projectId old),
     i_items := ov (u_items u) (i_items old),
     i_subtotal := ov (u_subtotal u) (i_subtotal old),
     i_discount := ov (u_discount u) (i_discount old),
     i_discountAmount := ov (u_discountAmount u) (i_discountAmount old),
     i_tax := ov (u_tax u) (i_tax old),
     i_taxAmount := ov (u_taxAmount u) (i_taxAmount old),
     i_total := ov (u_total u) (i_total old),
     i_status := ov (u_status u) (i_status old),
     i_dueDate := ov (u_dueDate u) (i_dueDate old),
     i_notes := ov (u_notes u) (i_notes old),
     i_paidAmount := ov (u_paidAmount u) (i_paidAmount old),
     i_createdAt := ov (u_createdAt u) (i_createdAt old),
     i_updatedAt := nowISO e \<rparr>"

definition invoiceDb_update ::
  "env \<Rightarrow> invoice list \<Rightarrow> string \<Rightarrow> invoice_patch \<Rightarrow> invoice option \<times> invoice list" where
  "invoiceDb_update e invs i updateData =
     (case findIndex (\<lambda>x. i_id x = i) invs of
        None \<Rightarrow> (None, invs)
      | Some invoiceIndex \<Rightarrow>
          (let invs' = invs[invoiceIndex := spread_invoice e (invs ! invoiceIndex) updateData]
           in (Some (invs' ! invoiceIndex), invs')))"

definition invoiceDb_delete :: "invoice list \<Rightarrow> string \<Rightarrow> bool \<times> invoice list" where
  "invoiceDb_delete invs i =
     (case findIndex (\<lambda>x. i_id x = i) invs of
        None \<Rightarrow> (False, invs)
      | Some invoiceIndex \<Rightarrow> (True, splice1 invoiceIndex invs))"

section \<open>Invoices: routes\<close>

text \<open>A line of the request: \<open>description\<close>, \<open>quantity\<close> and \<open>rate\<close> are what the routes read.\<close>

record line =
  l_description :: string
  l_quantity :: number
  l_rate :: number

text \<open>
  The body of an invoice request.  The update route spreads the whole body into the stored
  record, so every field of an invoice can occur in it; \<open>projectId\<close> may be \<open>null\<close>.
\<close>

record invoice_body =
  b_id :: "string option"
  b_invoiceNumber :: "string option"
  b_clientId :: "string option"
  b_projectId :: "string option option"
  b_items :: "line list option"
  b_subtotal :: "number option"
  b_discount :: "number option"
  b_discountAmount :: "number option"
  b_tax :: "number option"
  b_taxAmount :: "number option"
  b_total :: "number option"
  b_status :: "string option"
  b_dueDate :: "string option"
  b_notes :: "string option"
  b_paidAmount :: "number option"
  b_createdAt :: "string option"
  b_updatedAt :: "string option"

definition empty_body :: invoice_body where
  "empty_body = \<lparr> b_id = None, b_invoiceNumber = None, b_clientId = None,
     b_projectId = None, b_items = None, b_subtotal = None, b_discount = None,
     b_discountAmount = None, b_tax = None, b_taxAmount = None, b_total = None,
     b_status = None, b_dueDate = None, b_notes = None, b_paidAmount = None,
     b_createdAt = None, b_updatedAt = None \<rparr>"

text \<open>\<open>items.map(item => ({description, quantity, rate, amount: quantity * rate}))\<close>\<close>

definition map_items :: "line list \<Rightarrow> item list" where
  "map_items its = map (\<lambda>l. \<lparr> it_description = l_description l, it_quantity = l_quantity l,
      it_rate = l_rate l, it_amount = l_quantity l * l_rate l \<rparr>) its"

text \<open>\<open>items.reduce((sum, item) => sum + (item.quantity * item.rate), 0)\<close>\<close>

definition reduce_subtotal :: "line list \<Rightarrow> number" where
  "reduce_subtotal its = foldl (\<lambda>sum l. sum + l_quantity l * l_rate l) 0 its"

definition post_invoice :: "env \<Rightarrow> db \<Rightarrow> invoice_body \<Rightarrow> invoice response \<times> db" where
  "post_invoice e d body =
     (if \<not> truthy_str (b_clientId body) \<or> b_items body = None \<or> b_items body = Some []
      then (Response 400 ''Client and at least one item are required'' None, d)
      else
        (case clientDb_findById (clients d) (the (b_clientId body)) of
           None \<Rightarrow> (Response 400 ''Client not found'' None, d)
         | Some client \<Rightarrow>
             (let items = the (b_items body);
                  discount = b_discount body;
                  tax = b_tax body;
                  invoiceNumber = ''INV-'' @ padStart4 (String_nat (length (invoices d) + 1));
                  subtotal = reduce_subtotal items;
                  discountAmount =
                    (case discount of None \<Rightarrow> 0
                     | Some dv \<Rightarrow> if dv \<noteq> 0 then subtotal * dv / 100 else 0);
                  taxAmount =
                    (case tax of None \<Rightarrow> 0
                     | Some tv \<Rightarrow> if tv \<noteq> 0 then (subtotal - discountAmount) * tv / 100 else 0);
                  total = subtotal - discountAmount + taxAmount;
                  newInvoice = \<lparr>
                    i_invoiceNumber = invoiceNumber,
                    i_clientId = the (b_clientId body),
                    i_projectId =
                      (case b_projectId body of
                         Some (Some pid) \<Rightarrow> if pid \<noteq> [] then Some pid else None
                       | _ \<Rightarrow> None),
                    i_items = map_items items,
                    i_subtotal = subtotal,
                    i_discount = num_or discount 0,
                    i_discountAmount = discountAmount,
                    i_tax = num_or tax 0,
                    i_taxAmount = taxAmount,
                    i_total = total,
                    i_status = ''draft'',
                    i_dueDate = str_or (b_dueDate body) (due30ISO e),
                    i_notes = str_or (b_notes body) '''',
                    i_paidAmount = 0,
                    i_createdAt = nowISO e,
                    i_updatedAt = nowISO e \<rparr>;
                  (invoice, invs') = invoiceDb_create e (invoices d) newInvoice
              in (Response 201 ''Invoice created successfully'' (Some invoice),
                  d\<lparr>invoices := invs'\<rparr>))))"

text \<open>\<open>{...req.body}\<close>; the raw \<open>items\<close> of the body are replaced below whenever they are there.\<close>

definition spread_body :: "invoice_body \<Rightarrow> invoice_patch" where
  "spread_body body = \<lparr> u_id = b_id body, u_invoiceNumber = b_invoiceNumber body,
     u_clientId = b_clientId body, u_projectId = b_projectId body, u_items = None,
     u_subtotal = b_subtotal body, u_discount = b_discount body,
     u_discountAmount = b_discountAmount body, u_tax = b_tax body,
     u_taxAmount = b_taxAmount body, u_total = b_total body, u_status = b_status body,
     u_dueDate = b_dueDate body, u_notes = b_notes body, u_paidAmount = b_paidAmount body,
     u_createdAt = b_createdAt body, u_updatedAt = b_updatedAt body \<rparr>"

definition put_invoice :: "env \<Rightarrow> db \<Rightarrow> string \<Rightarrow> invoice_body \<Rightarrow> invoice response \<times> db" where
  "put_invoice e d iid body =
     (case invoiceDb_findById (invoices d) iid of
        None \<Rightarrow> (Response 404 ''Invoice not found'' None, d)
      | Some invoice \<Rightarrow>
          (let discount = b_discount body;
               tax = b_tax body;
               updateData =
                 (case b_items body of
                    None \<Rightarrow> spread_body body
                  | Some items \<Rightarrow>
                      (let subtotal = reduce_subtotal items;
                           discountAmount =
                             (case discount of None \<Rightarrow> 0
                              | Some dv \<Rightarrow> if dv \<noteq> 0 then subtotal * dv / 100 else 0);
                           taxAmount =
                             (case tax of None \<Rightarrow> 0
                              | Some tv \<Rightarrow>
                                  if tv \<noteq> 0 then (subtotal - discountAmount) * tv / 100 else 0);
                           total = subtotal - discountAmount + taxAmount
                       in (spread_body body)\<lparr>
                            u_items := Some (map_items items),
                            u_subtotal := Some subtotal,
                            u_discountAmount := Some discountAmount,
                            u_taxAmount := Some taxAmount,
                            u_total := Some total \<rparr>));
               (updatedInvoice, invs') = invoiceDb_update e (invoices d) iid updateData
           in (Response 200 ''Invoice updated successfully'' updatedInvoice,
               d\<lparr>invoices := invs'\<rparr>)))"

definition delete_invoice :: "db \<Rightarrow> string \<Rightarrow> invoice response \<times> db" where
  "delete_invoice d iid =
     (case invoiceDb_findById (invoices d) iid of
        None \<Rightarrow> (Response 404 ''Invoice not found'' None, d)
      | Some invoice \<Rightarrow>
          if i_status invoice \<noteq> ''draft''
          then (Response 400 ''Only draft invoices can be deleted'' None, d)
          else (let (ok, invs') = invoiceDb_delete (invoices d) iid
                in (Response 200 ''Invoice deleted successfully'' None,
                    d\<lparr>invoices := invs'\<rparr>)))"

definition valid_statuses :: "string list" where
  "valid_statuses = [''draft'', ''sent'', ''paid'', ''overdue'', ''cancelled'']"

definition put_invoice_status ::
  "env \<Rightarrow> db \<Rightarrow> string \<Rightarrow> invoice_body \<Rightarrow> invoice response \<times> db" where
  "put_invoice_status e d iid body =
     (case b_status body of
        None \<Rightarrow> (Response 400 ''Invalid status'' None, d)
      | Some status \<Rightarrow>
          if status \<notin> set valid_statuses
          then (Response 400 ''Invalid status'' None, d)
          else
            (case invoiceDb_findById (invoices d) iid of
               None \<Rightarrow> (Response 404 ''Invoice not found'' None, d)
             | Some invoice \<Rightarrow>
                 (let (updatedInvoice, invs') =
                        invoiceDb_update e (invoices d) iid (empty_patch\<lparr>u_status := Some status\<rparr>)
                  in (Response 200 ''Invoice status updated successfully'' updatedInvoice,
                      d\<lparr>invoices := invs'\<rparr>))))"

section \<open>Projects\<close>

record project_body =
  pb_title :: "string option"
  pb_description :: "string option"
  pb_clientId :: "string option"
  pb_startDate :: "string option"
  pb_endDate :: "string option"
  pb_budget :: "number option"
  pb_status :: "string option"
  pb_priority :: "string option"
  pb_tags :: "string list option"
  pb_milestones :: "project_milestone list option"

definition projectDb_create ::
  "env \<Rightarrow> project list \<Rightarrow> project_data \<Rightarrow> project \<times> project list" where
  "projectDb_create e ps projectData =
     (let newProject = project_data.extend
            (projectData\<lparr>p_createdAt := nowISO e, p_updatedAt := nowISO e\<rparr>)
            (project.fields (genId e))
      in (newProject, ps @ [newProject]))"

definition post_project :: "env \<Rightarrow> db \<Rightarrow> project_body \<Rightarrow> project response \<times> db" where
  "post_project e d body =
     (if \<not> truthy_str (pb_title body) \<or> \<not> truthy_str (pb_clientId body)
      then (Response 400 ''Title and client are required'' None, d)
      else
        (case clientDb_findById (clients d) (the (pb_clientId body)) of
           None \<Rightarrow> (Response 400 ''Client not found'' None, d)
         | Some client \<Rightarrow>
             (let clientId = the (pb_clientId body);
                  newProject = \<lparr>
                    p_title = the (pb_title body),
                    p_description = str_or (pb_description body) '''',
                    p_clientId = clientId,
                    p_startDate = str_or (pb_startDate body) (nowISO e),
                    p_endDate =
                      (case pb_endDate body of
                         Some s \<Rightarrow> if s \<noteq> [] then Some s else None
                       | None \<Rightarrow> None),
                    p_budget = num_or (pb_budget body) 0,
                    p_status = str_or (pb_status body) ''pending'',
                    p_priority = str_or (pb_priority body) ''medium'',
                    p_tags = (case pb_tags body of None \<Rightarrow> [] | Some ts \<Rightarrow> ts),
                    p_milestones = (case pb_milestones body of None \<Rightarrow> [] | Some ms \<Rightarrow> ms),
                    p_progress = 0,
                    p_totalHours = 0,
                    p_createdAt = nowISO e,
                    p_updatedAt = nowISO e \<rparr>;
                  (project, ps') = projectDb_create e (projects d) newProject;
                  d1 = d\<lparr>projects := ps'\<rparr>;
                  cs = clients d1;
                  d2 = (case findIndex (\<lambda>c. c_id c = clientId) cs of
                          None \<Rightarrow> d1
                        | Some clientIndex \<Rightarrow>
                            d1\<lparr>clients := cs[clientIndex := (cs ! clientIndex)\<lparr>
                              c_totalProjects :=
                                num_or (Some (c_totalProjects (cs ! clientIndex))) 0 + 1\<rparr>]\<rparr>)
              in (Response 201 ''Project created successfully'' (Some project), d2))))"

text \<open>
  The counts of \<open>GET /api/projects/stats/overview\<close>.  The comparison
  \<open>new Date(p.endDate) < new Date()\<close> is false when the date does not parse.
\<close>

definition is_overdue :: "env \<Rightarrow> project \<Rightarrow> bool" where
  "is_overdue e p =
     (case p_endDate p of
        None \<Rightarrow> False
      | Some s \<Rightarrow>
          if s = [] then False
          else (case parseDate e s of None \<Rightarrow> False | Some t \<Rightarrow> t < nowMs e)
               \<and> p_status p \<noteq> ''completed'')"

record project_overview =
  o_total :: nat
  o_active :: nat
  o_completed :: nat
  o_overdue :: nat
  o_totalBudget :: number

definition projects_stats_overview :: "env \<Rightarrow> db \<Rightarrow> project_overview" where
  "projects_stats_overview e d =
     (let ps = projects d;
          totalProjects = length ps;
          activeProjects = length (filter (\<lambda>p. p_status p \<in> set [''pending'', ''in-progress'']) ps);
          completedProjects = length (filter (\<lambda>p. p_status p = ''completed'') ps);
          overdueProjects = length (filter (is_overdue e) ps);
          totalBudget = foldl (\<lambda>sum p. sum + num_or (Some (p_budget p)) 0) 0 ps
      in \<lparr> o_total = totalProjects, o_active = activeProjects,
           o_completed = completedProjects, o_overdue = overdueProjects,
           o_totalBudget = totalBudget \<rparr>)"

text \<open>
  The calendar route (\<open>routes/events.js\<close>) derives the same flag from a project's deadline
  and status; it leaves cancelled projects out.
\<close>

definition events_isOverdue :: "env \<Rightarrow> string \<Rightarrow> string \<Rightarrow> bool" where
  "events_isOverdue e deadline status =
     ((case parseDate e deadline of None \<Rightarrow> False | Some t \<Rightarrow> t < nowMs e)
      \<and> status \<notin> set [''completed'', ''cancelled''])"

text \<open>
  The overdue derivation in the words of the specification: an end date that is not null
  and lies before now, and a status that is neither \<open>completed\<close> nor \<open>cancelled\<close>.
\<close>

definition overdue_as_specified :: "env \<Rightarrow> project \<Rightarrow> bool" where
  "overdue_as_specified e p =
     (case p_endDate p of
        None \<Rightarrow> False
      | Some s \<Rightarrow> (case parseDate e s of None \<Rightarrow> False | Some t \<Rightarrow> t < nowMs e)
                 \<and> p_status p \<notin> {''completed'', ''cancelled''})"

section \<open>The other computations of invoice totals\<close>

text \<open>
  The Mongoose schema (\<open>models/Invoice.js\<close>) recomputes the totals before every save.  Only
  the fields the hook touches are named; the rest of the document is the record's extension.
\<close>

record m_invoice =
  mi_items :: "item list"
  mi_subtotal :: number
  mi_taxRate :: number
  mi_taxAmount :: number
  mi_discountRate :: number
  mi_discountAmount :: number
  mi_total :: number

definition preSave :: "'a m_invoice_scheme \<Rightarrow> 'a m_invoice_scheme" where
  "preSave this =
     (let this = this\<lparr>mi_subtotal := foldl (\<lambda>sum item. sum + it_amount item) 0 (mi_items this)\<rparr>;
          this = this\<lparr>mi_taxAmount := (mi_subtotal this * mi_taxRate this) / 100\<rparr>;
          this = this\<lparr>mi_discountAmount := (mi_subtotal this * mi_discountRate this) / 100\<rparr>;
          this = this\<lparr>mi_total := mi_subtotal this + mi_taxAmount this - mi_discountAmount this\<rparr>
      in this)"

text \<open>The invoice form of the client (\<open>InvoicesPage.tsx\<close>, \<open>calculateTotals\<close>).\<close>

record totals =
  t_subtotal :: number
  t_discountAmount :: number
  t_taxAmount :: number
  t_total :: number

definition calculateTotals :: "line list \<Rightarrow> number \<Rightarrow> number \<Rightarrow> totals" where
  "calculateTotals items discount tax =
     (let subtotal = reduce_subtotal items;
          discountAmount = (if discount \<noteq> 0 then subtotal * discount / 100 else 0);
          taxAmount = (if tax \<noteq> 0 then (subtotal - discountAmount) * tax / 100 else 0);
          total = subtotal - discountAmount + taxAmount
      in \<lparr> t_subtotal = subtotal, t_discountAmount = discountAmount,
           t_taxAmount = taxAmount, t_total = total \<rparr>)"

section \<open>JavaScript numbers: IEEE-754 binary64\<close>

text \<open>
  The two invoice routes do arithmetic on the numbers of the request.  Where a property is
  about the amounts they compute for arbitrary input, the numbers are the doubles of
  JavaScript: a finite double is a sign and a magnitude (a rational of the form
  \<open>n * 2^e\<close> with \<open>n < 2^53\<close> and \<open>e \<ge> -1074\<close>, below \<open>2^1024\<close>), next to the
  two infinities and \<open>NaN\<close>.  An operation computes the exact result and rounds it to the
  nearest double, ties to the even significand; a result of magnitude \<open>2^1024\<close> or more
  after rounding is an infinity.
\<close>

datatype double = Finite bool rat | Infinity bool | NaN

function log2_up :: "rat \<Rightarrow> nat" where
  "log2_up x = (if x < 2 then 0 else Suc (log2_up (x / 2)))"
  by pat_completeness auto
termination
proof (relation "measure (\<lambda>x. nat \<lfloor>x\<rfloor>)")
  show "wf (measure (\<lambda>x::rat. nat \<lfloor>x\<rfloor>))" by simp
next
  fix x :: rat
  assume "\<not> x < 2"
  then have "x / 2 \<le> x - 1" by simp
  then have "\<lfloor>x / 2\<rfloor> \<le> \<lfloor>x - 1\<rfloor>" by (rule floor_mono)
  moreover have "\<lfloor>x - 1\<rfloor> = \<lfloor>x\<rfloor> - 1" by simp
  moreover have "2 \<le> \<lfloor>x\<rfloor>" using \<open>\<not> x < 2\<close> by (simp add: le_floor_iff)
  ultimately show "(x / 2, x) \<in> measure (\<lambda>x. nat \<lfloor>x\<rfloor>)" by simp
qed

function log2_down :: "rat \<Rightarrow> nat" where
  "log2_down x = (if x \<le> 0 \<or> 1 \<le> x then 0 else Suc (log2_down (2 * x)))"
  by pat_completeness auto
termination
proof (relation "measure (\<lambda>x. nat \<lceil>1 / x\<rceil>)")
  show "wf (measure (\<lambda>x::rat. nat \<lceil>1 / x\<rceil>))" by simp
next
  fix x :: rat
  assume "\<not> (x \<le> 0 \<or> 1 \<le> x)"
  then have x: "0 < x" "x < 1" by simp_all
  define y where "y = 1 / x"
  have y: "1 < y" using x by (simp add: y_def)
  have "y / 2 \<le> of_int \<lceil>y\<rceil> / 2" by (simp add: le_of_int_ceiling)
  then have "\<lceil>y / 2\<rceil> \<le> \<lceil>(of_int \<lceil>y\<rceil> :: rat) / 2\<rceil>" by (rule ceiling_mono)
  moreover have "2 \<le> \<lceil>y\<rceil>" using y by (simp add: less_ceiling_iff)
  moreover have "\<lceil>(of_int n :: rat) / 2\<rceil> < n" if "2 \<le> n" for n :: int
  proof -
    have "(of_int n :: rat) / 2 \<le> of_int (n - 1)" using that by simp
    then have "\<lceil>(of_int n :: rat) / 2\<rceil> \<le> n - 1" by (rule ceiling_le)
    then show ?thesis by simp
  qed
  ultimately have "\<lceil>y / 2\<rceil> < \<lceil>y\<rceil>"
    using order_le_less_trans [of "\<lceil>y / 2\<rceil>" "\<lceil>(of_int \<lceil>y\<rceil> :: rat) / 2\<rceil>" "\<lceil>y\<rceil>"] by blast
  moreover have "1 / (2 * x) = y / 2" by (simp add: y_def)
  ultimately have lt: "\<lceil>1 / (2 * x)\<rceil> < \<lceil>1 / x\<rceil>" by (simp only: y_def)
  have "0 < \<lceil>y\<rceil>" using \<open>2 \<le> \<lceil>y\<rceil>\<close> by linarith
  then have pos: "0 < \<lceil>1 / x\<rceil>" by (simp only: y_def)
  from lt pos show "(2 * x, x) \<in> measure (\<lambda>x. nat \<lceil>1 / x\<rceil>)"
    by (metis in_measure zless_nat_conj)
qed

declare log2_up.simps [simp del] log2_down.simps [simp del]

definition ilog2 :: "rat \<Rightarrow> int" where
  "ilog2 x = (if 1 \<le> x then int (log2_up x) else - int (log2_down x))"

definition rne :: "rat \<Rightarrow> int" where
  "rne q = (let f = \<lfloor>q\<rfloor>; d = q - of_int f
            in if d < 1 / 2 then f else if 1 / 2 < d then f + 1
               else if even f then f else f + 1)"

definition round_mag :: "rat \<Rightarrow> rat" where
  "round_mag x = (let e = max (ilog2 x - 52) (- 1074) in of_int (rne (x / 2 powi e)) * 2 powi e)"

definition rnd :: "bool \<Rightarrow> rat \<Rightarrow> double" where
  "rnd s0 x =
     (if x = 0 then Finite s0 0
      else (let m = round_mag \<bar>x\<bar>
            in if 2 powi 1024 \<le> m then Infinity (x < 0) else Finite (x < 0) m))"

definition num :: "rat \<Rightarrow> double" where
  "num x = rnd False x"

fun val :: "double \<Rightarrow> rat" where
  "val (Finite s m) = (if s then - m else m)"
| "val _ = 0"

fun dneg :: "double \<Rightarrow> double" where
  "dneg (Finite s m) = Finite (\<not> s) m"
| "dneg (Infinity s) = Infinity (\<not> s)"
| "dneg NaN = NaN"

fun dadd :: "double \<Rightarrow> double \<Rightarrow> double" where
  "dadd NaN _ = NaN"
| "dadd _ NaN = NaN"
| "dadd (Infinity s) (Infinity t) = (if s = t then Infinity s else NaN)"
| "dadd (Infinity s) (Finite _ _) = Infinity s"
| "dadd (Finite _ _) (Infinity t) = Infinity t"
| "dadd (Finite s m) (Finite t n) = rnd (s \<and> t) (val (Finite s m) + val (Finite t n))"

definition dsub :: "double \<Rightarrow> double \<Rightarrow> double" where
  "dsub a b = dadd a (dneg b)"

fun dmul :: "double \<Rightarrow> double \<Rightarrow> double" where
  "dmul NaN _ = NaN"
| "dmul _ NaN = NaN"
| "dmul (Infinity s) (Infinity t) = Infinity (s \<noteq> t)"
| "dmul (Infinity s) (Finite t n) = (if n = 0 then NaN else Infinity (s \<noteq> t))"
| "dmul (Finite s m) (Infinity t) = (if m = 0 then NaN else Infinity (s \<noteq> t))"
| "dmul (Finite s m) (Finite t n) = rnd (s \<noteq> t) (val (Finite s m) * val (Finite t n))"

fun ddiv :: "double \<Rightarrow> double \<Rightarrow> double" where
  "ddiv NaN _ = NaN"
| "ddiv _ NaN = NaN"
| "ddiv (Infinity s) (Infinity t) = NaN"
| "ddiv (Infinity s) (Finite t n) = Infinity (s \<noteq> t)"
| "ddiv (Finite s m) (Infinity t) = Finite (s \<noteq> t) 0"
| "ddiv (Finite s m) (Finite t n) =
     (if n = 0 then (if m = 0 then NaN else Infinity (s \<noteq> t))
      else rnd (s \<noteq> t) (val (Finite s m) / val (Finite t n)))"

definition is_mag :: "rat \<Rightarrow> bool" where
  "is_mag m \<longleftrightarrow> (\<exists>n e. m = of_int n * 2 powi e \<and> 0 \<le> n \<and> n < 2 ^ 53 \<and> - 1074 \<le> e
                     \<and> m < 2 powi 1024)"

fun wf_double :: "double \<Rightarrow> bool" where
  "wf_double (Finite s m) = is_mag m"
| "wf_double _ = True"

section \<open>The invoice routes over doubles\<close>

text \<open>
  \<open>POST /api/invoices\<close> and \<open>PUT /api/invoices/:id\<close> once more, line by line as above, with
  the numbers of the request as doubles and every number of a record as it stands in the
  JSON file and in the response.
\<close>

text \<open>JavaScript truthiness of a number: \<open>0\<close>, \<open>-0\<close> and \<open>NaN\<close> are falsy.\<close>

definition truthy_num :: "double \<Rightarrow> bool" where
  "truthy_num x = (case x of Finite s m \<Rightarrow> m \<noteq> 0 | Infinity s \<Rightarrow> True | NaN \<Rightarrow> False)"

text \<open>\<open>Number.isFinite\<close>, and the two zeros.\<close>

fun is_finite :: "double \<Rightarrow> bool" where
  "is_finite (Finite s m) = True"
| "is_finite _ = False"

fun is_zero :: "double \<Rightarrow> bool" where
  "is_zero (Finite s m) = (m = 0)"
| "is_zero _ = False"

text \<open>
  What \<open>JSON.stringify\<close> keeps of a number, read back: a finite double is kept (\<open>-0\<close> is
  written \<open>0\<close>), \<open>Infinity\<close>, \<open>-Infinity\<close> and \<open>NaN\<close> are written \<open>null\<close> (\<open>None\<close>).
\<close>

type_synonym json_number = "double option"

definition json_of :: "double \<Rightarrow> json_number" where
  "json_of x = (case x of Finite s m \<Rightarrow> Some (Finite (s \<and> m \<noteq> 0) m) | _ \<Rightarrow> None)"

record line_f64 =
  lf_description :: string
  lf_quantity :: double
  lf_rate :: double

record item_f64 =
  jt_description :: string
  jt_quantity :: json_number
  jt_rate :: json_number
  jt_amount :: json_number

record invoice_data_f64 =
  j_invoiceNumber :: string
  j_clientId :: string
  j_projectId :: "string option"
  j_items :: "item_f64 list"
  j_subtotal :: json_number
  j_discount :: json_number
  j_discountAmount :: json_number
  j_tax :: json_number
  j_taxAmount :: json_number
  j_total :: json_number
  j_status :: string
  j_dueDate :: string
  j_notes :: string
  j_paidAmount :: json_number
  j_createdAt :: string
  j_updatedAt :: string

record invoice_f64 = invoice_data_f64 +
  j_id :: string

record db_f64 =
  clients_f64 :: "client list"
  invoices_f64 :: "invoice_f64 list"

record invoice_body_f64 =
  r_id :: "string option"
  r_invoiceNumber :: "string option"
  r_clientId :: "string option"
  r_projectId :: "string option option"
  r_items :: "line_f64 list option"
  r_subtotal :: "double option"
  r_discount :: "double option"
  r_discountAmount :: "double option"
  r_tax :: "double option"
  r_taxAmount :: "double option"
  r_total :: "double option"
  r_status :: "string option"
  r_dueDate :: "string option"
  r_notes :: "string option"
  r_paidAmount :: "double option"
  r_createdAt :: "string option"
  r_updatedAt :: "string option"

definition empty_body_f64 :: invoice_body_f64 where
  "empty_body_f64 = \<lparr> r_id = None, r_invoiceNumber = None, r_clientId = None,
     r_projectId = None, r_items = None, r_subtotal = None, r_discount = None,
     r_discountAmount = None, r_tax = None, r_taxAmount = None, r_total = None,
     r_status = None, r_dueDate = None, r_notes = None, r_paidAmount = None,
     r_createdAt = None, r_updatedAt = None \<rparr>"

text \<open>The object given to \<open>invoiceDb.update\<close>, each field as it is written to the file.\<close>

record invoice_patch_f64 =
  v_id :: "string option"
  v_invoiceNumber :: "string option"
  v_clientId :: "string option"
  v_projectId :: "string option option"
  v_items :: "item_f64 list option"
  v_subtotal :: "json_number option"
  v_discount :: "json_number option"
  v_discountAmount :: "json_number option"
  v_tax :: "json_number option"
  v_taxAmount :: "json_number option"
  v_total :: "json_number option"
  v_status :: "string option"
  v_dueDate :: "string option"
  v_notes :: "string option"
  v_paidAmount :: "json_number option"
  v_createdAt :: "string option"
  v_updatedAt :: "string option"

definition invoiceDb_create_f64 ::
  "env \<Rightarrow> invoice_f64 list \<Rightarrow> invoice_data_f64 \<Rightarrow> invoice_f64 \<times> invoice_f64 list" where
  "invoiceDb_create_f64 e invs invoiceData =
     (let newInvoice = invoice_data_f64.extend
            (invoiceData\<lparr>j_createdAt := nowISO e, j_updatedAt := nowISO e\<rparr>)
            (invoice_f64.fields (genId e))
      in (newInvoice, invs @ [newInvoice]))"

definition invoiceDb_findById_f64 :: "invoice_f64 list \<Rightarrow> string \<Rightarrow> invoice_f64 option" where
  "invoiceDb_findById_f64 invs i = find (\<lambda>x. j_id x = i) invs"

definition spread_invoice_f64 :: "env \<Rightarrow> invoice_f64 \<Rightarrow> invoice_patch_f64 \<Rightarrow> invoice_f64" where
  "spread_invoice_f64 e old u = old\<lparr>
     j_id := ov (v_id u) (j_id old),
     j_invoiceNumber := ov (v_invoiceNumber u) (j_invoiceNumber old),
     j_clientId := ov (v_clientId u) (j_clientId old),
     j_projectId := ov (v_projectId u) (j_projectId old),
     j_items := ov (v_items u) (j_items old),
     j_subtotal := ov (v_subtotal u) (j_subtotal old),
     j_discount := ov (v_discount u) (j_discount old),
     j_discountAmount := ov (v_discountAmount u) (j_discountAmount old),
     j_tax := ov (v_tax u) (j_tax old),
     j_taxAmount := ov (v_taxAmount u) (j_taxAmount old),
     j_total := ov (v_total u) (j_total old),
     j_status := ov (v_status u) (j_status old),
     j_dueDate := ov (v_dueDate u) (j_dueDate old),
     j_notes := ov (v_notes u) (j_notes old),
     j_paidAmount := ov (v_paidAmount u) (j_paidAmount old),
     j_createdAt := ov (v_createdAt u) (j_createdAt old),
     j_updatedAt := nowISO e \<rparr>"

definition invoiceDb_update_f64 ::
  "env \<Rightarrow> invoice_f64 list \<Rightarrow> string \<Rightarrow> invoice_patch_f64
     \<Rightarrow> invoice_f64 option \<times> invoice_f64 list" where
  "invoiceDb_update_f64 e invs i updateData =
     (case findIndex (\<lambda>x. j_id x = i) invs of
        None \<Rightarrow> (None, invs)
      | Some invoiceIndex \<Rightarrow>
          (let invs' = invs[invoiceIndex := spread_invoice_f64 e (invs ! invoiceIndex) updateData]
           in (Some (invs' ! invoiceIndex), invs')))"

text \<open>\<open>items.map(item => ({description, quantity, rate, amount: quantity * rate}))\<close>, as written.\<close>

definition map_items_f64 :: "line_f64 list \<Rightarrow> item_f64 list" where
  "map_items_f64 its = map (\<lambda>l. \<lparr> jt_description = lf_description l,
      jt_quantity = json_of (lf_quantity l), jt_rate = json_of (lf_rate l),
      jt_amount = json_of (dmul (lf_quantity l) (lf_rate l)) \<rparr>) its"

text \<open>\<open>items.reduce((sum, item) => sum + (item.quantity * item.rate), 0)\<close>\<close>

definition reduce_subtotal_f64 :: "line_f64 list \<Rightarrow> double" where
  "reduce_subtotal_f64 its =
     foldl (\<lambda>sum l. dadd sum (dmul (lf_quantity l) (lf_rate l))) (num 0) its"

text \<open>\<open>x ? a : 0\<close> and \<open>x || 0\<close> for a number \<open>x\<close> of the body that may be absent.\<close>

definition truthy_opt :: "double option \<Rightarrow> bool" where
  "truthy_opt x = (case x of None \<Rightarrow> False | Some v \<Rightarrow> truthy_num v)"

definition num_or_0 :: "double option \<Rightarrow> double" where
  "num_or_0 x = (case x of None \<Rightarrow> num 0 | Some v \<Rightarrow> if truthy_num v then v else num 0)"

definition post_invoice_f64 ::
  "env \<Rightarrow> db_f64 \<Rightarrow> invoice_body_f64 \<Rightarrow> invoice_f64 response \<times> db_f64" where
  "post_invoice_f64 e d body =
     (if \<not> truthy_str (r_clientId body) \<or> r_items body = None \<or> r_items body = Some []
      then (Response 400 ''Client and at least one item are required'' None, d)
      else
        (case clientDb_findById (clients_f64 d) (the (r_clientId body)) of
           None \<Rightarrow> (Response 400 ''Client not found'' None, d)
         | Some client \<Rightarrow>
             (let items = the (r_items body);
                  discount = r_discount body;
                  tax = r_tax body;
                  invoiceNumber = ''INV-'' @ padStart4 (String_nat (length (invoices_f64 d) + 1));
                  subtotal = reduce_subtotal_f64 items;
                  discountAmount =
                    (if truthy_opt discount
                     then ddiv (dmul subtotal (the discount)) (num 100) else num 0);
                  taxAmount =
                    (if truthy_opt tax
                     then ddiv (dmul (dsub subtotal discountAmount) (the tax)) (num 100)
                     else num 0);
                  total = dadd (dsub subtotal discountAmount) taxAmount;
                  newInvoice = \<lparr>
                    j_invoiceNumber = invoiceNumber,
                    j_clientId = the (r_clientId body),
                    j_projectId =
                      (case r_projectId body of
                         Some (Some pid) \<Rightarrow> if pid \<noteq> [] then Some pid else None
                       | _ \<Rightarrow> None),
                    j_items = map_items_f64 items,
                    j_subtotal = json_of subtotal,
                    j_discount = json_of (num_or_0 discount),
                    j_discountAmount = json_of discountAmount,
                    j_tax = json_of (num_or_0 tax),
                    j_taxAmount = json_of taxAmount,
                    j_total = json_of total,
                    j_status = ''draft'',
                    j_dueDate = str_or (r_dueDate body) (due30ISO e),
                    j_notes = str_or (r_notes body) '''',
                    j_paidAmount = json_of (num 0),
                    j_createdAt = nowISO e,
                    j_updatedAt = nowISO e \<rparr>;
                  (invoice, invs') = invoiceDb_create_f64 e (invoices_f64 d) newInvoice
              in (Response 201 ''Invoice created successfully'' (Some invoice),
                  d\<lparr>invoices_f64 := invs'\<rparr>))))"

definition spread_body_f64 :: "invoice_body_f64 \<Rightarrow> invoice_patch_f64" where
  "spread_body_f64 body = \<lparr> v_id = r_id body, v_invoiceNumber = r_invoiceNumber body,
     v_clientId = r_clientId body, v_projectId = r_projectId body, v_items = None,
     v_subtotal = map_option json_of (r_subtotal body),
     v_discount = map_option json_of (r_discount body),
     v_discountAmount = map_option json_of (r_discountAmount body),
     v_tax = map_option json_of (r_tax body),
     v_taxAmount = map_option json_of (r_taxAmount body),
     v_total = map_option json_of (r_total body), v_status = r_status body,
     v_dueDate = r_dueDate body, v_notes = r_notes body,
     v_paidAmount = map_option json_of (r_paidAmount body),
     v_createdAt = r_createdAt body, v_updatedAt = r_updatedAt body \<rparr>"

definition put_invoice_f64 ::
  "env \<Rightarrow> db_f64 \<Rightarrow> string \<Rightarrow> invoice_body_f64 \<Rightarrow> invoice_f64 response \<times> db_f64" where
  "put_invoice_f64 e d iid body =
     (case invoiceDb_findById_f64 (invoices_f64 d) iid of
        None \<Rightarrow> (Response 404 ''Invoice not found'' None, d)
      | Some invoice \<Rightarrow>
          (let discount = r_discount body;
               tax = r_tax body;
               updateData =
                 (case r_items body of
                    None \<Rightarrow> spread_body_f64 body
                  | Some items \<Rightarrow>
                      (let subtotal = reduce_subtotal_f64 items;
                           discountAmount =
                             (if truthy_opt discount
                              then ddiv (dmul subtotal (the discount)) (num 100) else num 0);
                           taxAmount =
                             (if truthy_opt tax
                              then ddiv (dmul (dsub subtotal discountAmount) (the tax)) (num 100)
                              else num 0);
                           total = dadd (dsub subtotal discountAmount) taxAmount
                       in (spread_body_f64 body)\<lparr>
                            v_items := Some (map_items_f64 items),
                            v_subtotal := Some (json_of subtotal),
                            v_discountAmount := Some (json_of discountAmount),
                            v_taxAmount := Some (json_of taxAmount),
                            v_total := Some (json_of total) \<rparr>));
               (updatedInvoice, invs') = invoiceDb_update_f64 e (invoices_f64 d) iid updateData
           in (Response 200 ''Invoice updated successfully'' updatedInvoice,
               d\<lparr>invoices_f64 := invs'\<rparr>)))"

section \<open>Sample data\<close>

definition env0 :: env where
  "env0 = \<lparr> genId = ''id9'', nowISO = ''2025-01-01T00:00:00.000Z'',
     due30ISO = ''2025-01-31T00:00:00.000Z'', nowMs = 1000,
     parseDate = (\<lambda>s. if s = ''past'' then Some 10 else if s = ''future'' then Some 5000 else None) \<rparr>"

definition acme :: client where
  "acme = \<lparr> c_id = ''c1'', c_name = ''Acme'', c_email = ''a@acme.com'', c_company = '''',
     c_whatsapp = '''', c_phone = '''', c_address = '''', c_notes = '''', c_status = ''active'',
     c_totalProjects = 0, c_totalRevenue = 0, c_createdAt = ''2024-12-01T00:00:00.000Z'',
     c_updatedAt = ''2024-12-01T00:00:00.000Z'' \<rparr>"

definition inv1 :: invoice where
  "inv1 = \<lparr> i_invoiceNumber = ''INV-0001'', i_clientId = ''c1'', i_projectId = None,
     i_items = [\<lparr> it_description = ''design'', it_quantity = 2, it_rate = 50, it_amount = 100 \<rparr>],
     i_subtotal = 100, i_discount = 10, i_discountAmount = 10, i_tax = 8,
     i_taxAmount = 36 / 5, i_total = 486 / 5, i_status = ''draft'',
     i_dueDate = ''2025-01-31T00:00:00.000Z'', i_notes = '''', i_paidAmount = 0,
     i_createdAt = ''2024-12-02T00:00:00.000Z'', i_updatedAt = ''2024-12-02T00:00:00.000Z'',
     i_id = ''i1'' \<rparr>"

definition db0 :: db where
  "db0 = \<lparr> clients = [acme], projects = [], invoices = [] \<rparr>"

definition db1 :: "string \<Rightarrow> db" where
  "db1 st = \<lparr> clients = [acme], projects = [], invoices = [inv1\<lparr>i_status := st\<rparr>] \<rparr>"

definition proj1 :: "string \<Rightarrow> project" where
  "proj1 st = \<lparr> p_title = ''Site'', p_description = '''', p_clientId = ''c1'',
     p_startDate = ''2024-12-01T00:00:00.000Z'', p_endDate = Some ''past'', p_budget = 1000,
     p_status = st, p_priority = ''medium'', p_tags = [], p_milestones = [], p_progress = 0,
     p_totalHours = 0, p_createdAt = ''2024-12-01T00:00:00.000Z'',
     p_updatedAt = ''2024-12-01T00:00:00.000Z'', p_id = ''p1'' \<rparr>"

definition line1 :: "number \<Rightarrow> number \<Rightarrow> line" where
  "line1 q r = \<lparr> l_description = ''design'', l_quantity = q, l_rate = r \<rparr>"

definition client_body0 :: "string \<Rightarrow> client_body" where
  "client_body0 em = \<lparr> cb_name = Some ''Bolt'', cb_email = Some em, cb_company = None,
     cb_whatsapp = None, cb_phone = None, cb_address = None, cb_notes = None,
     cb_status = None \<rparr>"

definition status_body :: "string \<Rightarrow> invoice_body" where
  "status_body s = empty_body\<lparr> b_status := Some s \<rparr>"

definition no_items_body :: invoice_body where
  "no_items_body = empty_body\<lparr> b_items := Some [] \<rparr>"

definition unknown_client_body :: project_body where
  "unknown_client_body = \<lparr> pb_title = Some ''Site'', pb_description = None,
     pb_clientId = Some ''c404'', pb_startDate = None, pb_endDate = None, pb_budget = None,
     pb_status = None, pb_priority = None, pb_tags = None, pb_milestones = None \<rparr>"

definition m_inv0 :: m_invoice where
  "m_inv0 = \<lparr> mi_items =
       [\<lparr> it_description = ''design'', it_quantity = 2, it_rate = 50, it_amount = 100 \<rparr>],
     mi_subtotal = 0, mi_taxRate = 8, mi_taxAmount = 0, mi_discountRate = 10,
     mi_discountAmount = 0, mi_total = 0 \<rparr>"

definition db0_f64 :: db_f64 where
  "db0_f64 = \<lparr> clients_f64 = [acme], invoices_f64 = [] \<rparr>"

definition inv1_f64 :: invoice_f64 where
  "inv1_f64 = \<lparr> j_invoiceNumber = ''INV-0001'', j_clientId = ''c1'', j_projectId = None,
     j_items = [\<lparr> jt_description = ''design'', jt_quantity = Some (num 2),
       jt_rate = Some (num 50), jt_amount = Some (num 100) \<rparr>],
     j_subtotal = Some (num 100), j_discount = Some (num 10), j_discountAmount = Some (num 10),
     j_tax = Some (num 8), j_taxAmount = Some (num (36 / 5)), j_total = Some (num (486 / 5)),
     j_status = ''draft'', j_dueDate = ''2025-01-31T00:00:00.000Z'', j_notes = '''',
     j_paidAmount = Some (num 0), j_createdAt = ''2024-12-02T00:00:00.000Z'',
     j_updatedAt = ''2024-12-02T00:00:00.000Z'', j_id = ''i1'' \<rparr>"

definition db1_f64 :: db_f64 where
  "db1_f64 = \<lparr> clients_f64 = [acme], invoices_f64 = [inv1_f64] \<rparr>"

definition line_f64_of :: "double \<Rightarrow> double \<Rightarrow> line_f64" where
  "line_f64_of q r = \<lparr> lf_description = ''design'', lf_quantity = q, lf_rate = r \<rparr>"

definition scenario_body :: invoice_body_f64 where
  "scenario_body = empty_body_f64\<lparr> r_clientId := Some ''c1'',
     r_items := Some [line_f64_of (num 2) (num 50)],
     r_discount := Some (num 10), r_tax := Some (num 8) \<rparr>"

text \<open>A rate of \<open>2^1023\<close>, which JavaScript writes and reads as \<open>8.98846567431158e+307\<close>.\<close>

definition overflow_body :: invoice_body_f64 where
  "overflow_body = empty_body_f64\<lparr> r_clientId := Some ''c1'',
     r_items := Some [line_f64_of (num 2) (Finite False (2 ^ 1023))] \<rparr>"

definition overflow_result :: invoice_f64 where
  "overflow_result = hd (invoices_f64 (snd (post_invoice_f64 env0 db0_f64 overflow_body)))"

definition zero_rate_body :: invoice_body_f64 where
  "zero_rate_body = empty_body_f64\<lparr> r_items := Some [line_f64_of (num 1) (num 0)] \<rparr>"

definition new_items_body :: invoice_body_f64 where
  "new_items_body = empty_body_f64\<lparr> r_items := Some [line_f64_of (num 3) (num 100)] \<rparr>"

definition zero_rate_result :: invoice_f64 where
  "zero_rate_result = hd (invoices_f64 (snd (put_invoice_f64 env0 db1_f64 ''i1'' zero_rate_body)))"

definition rounding_body :: invoice_body_f64 where
  "rounding_body = empty_body_f64\<lparr> r_clientId := Some ''c1'',
     r_items := Some [line_f64_of (num 3) (num (1 / 10))] \<rparr>"

definition rounding_result :: invoice_f64 where
  "rounding_result = hd (invoices_f64 (snd (post_invoice_f64 env0 db0_f64 rounding_body)))"

section \<open>Properties\<close>

lemma find_None_conv: "find P xs = None \<longleftrightarrow> (\<forall>x \<in> set xs. \<not> P x)"
  by (induction xs) auto

lemma find_Some_ex: "(\<exists>x \<in> set xs. P x) \<Longrightarrow> \<exists>y. find P xs = Some y"
  by (induction xs) auto

text \<open>
  Claim C8.  A client-creation request with name and email present fails with status 400
  (the conflict message) and leaves the database as it was when some stored client has
  exactly the requested email (string equality, case-sensitive); otherwise it succeeds,
  appends the new client, and the new client has \<open>totalProjects = 0\<close> and
  \<open>totalRevenue = 0\<close>.
\<close>

theorem post_client_conflict_or_created:
  assumes "cb_name body = Some n" and "n \<noteq> []"
    and "cb_email body = Some em" and "em \<noteq> []"
  shows "((\<exists>c \<in> set (clients d). c_email c = em) \<longrightarrow>
            post_client e d body =
              (Response 400 ''Client with this email already exists'' None, d))
       \<and> ((\<forall>c \<in> set (clients d). c_email c \<noteq> em) \<longrightarrow>
            (\<exists>c. post_client e d body =
                   (Response 201 ''Client created successfully'' (Some c),
                    d\<lparr>clients := clients d @ [c]\<rparr>)
                 \<and> c_name c = n \<and> c_email c = em
                 \<and> c_totalProjects c = 0 \<and> c_totalRevenue c = 0))"
proof (intro conjI impI)
  assume "\<exists>c \<in> set (clients d). c_email c = em"
  then have "\<exists>y. find (\<lambda>c. Some (c_email c) = cb_email body) (clients d) = Some y"
    using assms(3) by (intro find_Some_ex) simp
  then show "post_client e d body =
      (Response 400 ''Client with this email already exists'' None, d)"
    using assms by (auto simp: post_client_def truthy_str_def)
next
  assume "\<forall>c \<in> set (clients d). c_email c \<noteq> em"
  then have "find (\<lambda>c. Some (c_email c) = cb_email body) (clients d) = None"
    using assms(3) by (simp add: find_None_conv)
  then show "\<exists>c. post_client e d body =
                   (Response 201 ''Client created successfully'' (Some c),
                    d\<lparr>clients := clients d @ [c]\<rparr>)
                 \<and> c_name c = n \<and> c_email c = em
                 \<and> c_totalProjects c = 0 \<and> c_totalRevenue c = 0"
    using assms by (simp add: post_client_def truthy_str_def clientDb_create_def Let_def)
qed

theorem post_client_conflict_or_created_witness:
  "post_client env0 db0 (client_body0 ''a@acme.com'') =
     (Response 400 ''Client with this email already exists'' None, db0)
   \<and> (\<exists>c. post_client env0 db0 (client_body0 ''A@acme.com'') =
            (Response 201 ''Client created successfully'' (Some c),
             db0\<lparr>clients := clients db0 @ [c]\<rparr>)
          \<and> c_email c = ''A@acme.com'' \<and> c_totalProjects c = 0 \<and> c_totalRevenue c = 0)"
proof -
  have n: "cb_name (client_body0 em) = Some ''Bolt''" "''Bolt'' \<noteq> []"
    and m: "cb_email (client_body0 em) = Some em" for em
    by (simp_all add: client_body0_def)
  have e1: "''a@acme.com'' \<noteq> []" and e2: "''A@acme.com'' \<noteq> []" by simp_all
  have dup: "\<exists>c \<in> set (clients db0). c_email c = ''a@acme.com''"
    and fresh: "\<forall>c \<in> set (clients db0). c_email c \<noteq> ''A@acme.com''"
    by (simp_all add: db0_def acme_def)
  from post_client_conflict_or_created [OF n m e1, of db0 env0] dup
    post_client_conflict_or_created [OF n m e2, of db0 env0] fresh
  show ?thesis by blast
qed

lemma foldl_add_sum_list: "foldl (\<lambda>s x. s + f x) a xs = a + sum_list (map f xs)"
  by (induction xs arbitrary: a) (simp_all add: add.assoc)

lemma reduce_subtotal_sum: "reduce_subtotal its = sum_list (map (\<lambda>l. l_quantity l * l_rate l) its)"
  by (simp add: reduce_subtotal_def foldl_add_sum_list)

lemma find_findIndex:
  "find P xs = Some x \<Longrightarrow> \<exists>k. findIndex P xs = Some k \<and> k < length xs \<and> xs ! k = x"
proof (induction xs)
  case Nil
  then show ?case by simp
next
  case (Cons y ys)
  show ?case
  proof (cases "P y")
    case True
    with Cons.prems show ?thesis by simp
  next
    case False
    with Cons.prems have "find P ys = Some x" by simp
    from Cons.IH [OF this] obtain k where "findIndex P ys = Some k" "k < length ys" "ys ! k = x"
      by blast
    with False show ?thesis by simp
  qed
qed

lemma findIndex_holds: "findIndex P xs = Some k \<Longrightarrow> k < length xs \<and> P (xs ! k)"
proof (induction xs arbitrary: k)
  case Nil
  then show ?case by simp
next
  case (Cons y ys)
  then show ?case by (auto split: if_splits option.splits)
qed

lemma distinct_splice1_find:
  assumes "distinct (map f xs)" and "k < length xs" and "f (xs ! k) = a"
  shows "find (\<lambda>x. f x = a) (splice1 k xs) = None"
proof -
  have "\<forall>x \<in> set (splice1 k xs). f x \<noteq> a"
  proof
    fix x assume "x \<in> set (splice1 k xs)"
    then have "x \<in> set (take k xs) \<or> x \<in> set (drop (Suc k) xs)"
      by (simp add: splice1_def)
    then consider (before) "x \<in> set (take k xs)" | (behind) "x \<in> set (drop (Suc k) xs)"
      by blast
    then obtain j where j: "j < length xs" "j \<noteq> k" "xs ! j = x"
    proof cases
      case before
      then obtain i where "i < k" "i < length xs" "xs ! i = x"
        by (auto simp: in_set_conv_nth)
      then show ?thesis using that [of i] by simp
    next
      case behind
      then obtain i where "i < length xs - Suc k" "xs ! (Suc k + i) = x"
        by (auto simp: in_set_conv_nth)
      then show ?thesis using that [of "Suc k + i"] by simp
    qed
    have "map f xs ! j \<noteq> map f xs ! k"
      using nth_eq_iff_index_eq [OF assms(1), of j k] j(1,2) assms(2) by simp
    with j assms(2,3) show "f x \<noteq> a" by simp
  qed
  then show ?thesis by (simp add: find_None_conv)
qed

text \<open>
  Claim C3.  For an invoice found under the requested id, \<open>DELETE /api/invoices/:id\<close>
  answers 400 and leaves the database as it was whenever the status is anything but
  \<open>draft\<close>; when the status is \<open>draft\<close> it answers 200 and the invoice is cut out of the
  stored list (after which, ids being distinct, no invoice is found under that id).
\<close>

theorem delete_invoice_draft_only:
  assumes "invoiceDb_findById (invoices d) iid = Some iv"
  shows "(i_status iv \<noteq> ''draft'' \<longrightarrow>
            delete_invoice d iid =
              (Response 400 ''Only draft invoices can be deleted'' None, d))
       \<and> (i_status iv = ''draft'' \<longrightarrow>
            (\<exists>k < length (invoices d). invoices d ! k = iv
               \<and> delete_invoice d iid =
                   (Response 200 ''Invoice deleted successfully'' None,
                    d\<lparr>invoices := take k (invoices d) @ drop (Suc k) (invoices d)\<rparr>)
               \<and> (distinct (map i_id (invoices d)) \<longrightarrow>
                    invoiceDb_findById (take k (invoices d) @ drop (Suc k) (invoices d)) iid
                      = None)))"
proof (intro conjI impI)
  assume "i_status iv \<noteq> ''draft''"
  with assms show "delete_invoice d iid =
      (Response 400 ''Only draft invoices can be deleted'' None, d)"
    by (simp add: delete_invoice_def)
next
  assume draft: "i_status iv = ''draft''"
  from assms obtain k where k: "findIndex (\<lambda>x. i_id x = iid) (invoices d) = Some k"
    "k < length (invoices d)" "invoices d ! k = iv"
    unfolding invoiceDb_findById_def by (blast dest: find_findIndex)
  from findIndex_holds [OF k(1)] have idk: "i_id (invoices d ! k) = iid" by simp
  have del: "delete_invoice d iid =
      (Response 200 ''Invoice deleted successfully'' None,
       d\<lparr>invoices := take k (invoices d) @ drop (Suc k) (invoices d)\<rparr>)"
    using assms draft k(1) by (simp add: delete_invoice_def invoiceDb_delete_def splice1_def)
  have gone: "distinct (map i_id (invoices d)) \<longrightarrow>
      invoiceDb_findById (take k (invoices d) @ drop (Suc k) (invoices d)) iid = None"
    using distinct_splice1_find [of i_id "invoices d" k iid] k(2) idk
    by (simp add: invoiceDb_findById_def splice1_def)
  from k(2,3) del gone
  show "\<exists>k < length (invoices d). invoices d ! k = iv
               \<and> delete_invoice d iid =
                   (Response 200 ''Invoice deleted successfully'' None,
                    d\<lparr>invoices := take k (invoices d) @ drop (Suc k) (invoices d)\<rparr>)
               \<and> (distinct (map i_id (invoices d)) \<longrightarrow>
                    invoiceDb_findById (take k (invoices d) @ drop (Suc k) (invoices d)) iid
                      = None)"
    by blast
qed

theorem delete_invoice_draft_only_witness:
  "delete_invoice (db1 ''sent'') ''i1'' =
     (Response 400 ''Only draft invoices can be deleted'' None, db1 ''sent'')
   \<and> delete_invoice (db1 ''draft'') ''i1'' =
     (Response 200 ''Invoice deleted successfully'' None, db0)"
proof -
  have f1: "invoiceDb_findById (invoices (db1 ''sent'')) ''i1'' = Some (inv1\<lparr>i_status := ''sent''\<rparr>)"
    and f2: "invoiceDb_findById (invoices (db1 ''draft'')) ''i1'' = Some (inv1\<lparr>i_status := ''draft''\<rparr>)"
    by (simp_all add: invoiceDb_findById_def db1_def inv1_def)
  from delete_invoice_draft_only [OF f1] delete_invoice_draft_only [OF f2]
  show ?thesis by (auto simp: db1_def db0_def)
qed

lemma spread_status_only:
  "spread_invoice e old (empty_patch\<lparr>u_status := Some s\<rparr>) = old\<lparr>i_status := s, i_updatedAt := nowISO e\<rparr>"
  by (simp add: spread_invoice_def empty_patch_def ov_def)

lemma put_status_result:
  assumes "invoiceDb_findById (invoices d) iid = Some iv"
    and "b_status body = Some s" and "s \<in> set valid_statuses"
  shows "\<exists>k < length (invoices d). invoices d ! k = iv
           \<and> put_invoice_status e d iid body =
               (Response 200 ''Invoice status updated successfully''
                  (Some (iv\<lparr>i_status := s, i_updatedAt := nowISO e\<rparr>)),
                d\<lparr>invoices := (invoices d)[k := iv\<lparr>i_status := s, i_updatedAt := nowISO e\<rparr>]\<rparr>)"
proof -
  from assms(1) obtain k where k: "findIndex (\<lambda>x. i_id x = iid) (invoices d) = Some k"
    "k < length (invoices d)" "invoices d ! k = iv"
    unfolding invoiceDb_findById_def by (blast dest: find_findIndex)
  have "put_invoice_status e d iid body =
               (Response 200 ''Invoice status updated successfully''
                  (Some (iv\<lparr>i_status := s, i_updatedAt := nowISO e\<rparr>)),
                d\<lparr>invoices := (invoices d)[k := iv\<lparr>i_status := s, i_updatedAt := nowISO e\<rparr>]\<rparr>)"
    using assms k
    by (simp add: put_invoice_status_def invoiceDb_update_def spread_status_only Let_def)
  with k(2,3) show ?thesis by blast
qed

text \<open>
  Claim C4, as the code has it.  \<open>PUT /api/invoices/:id/status\<close> does not look at the
  stored status: for an invoice found under the id and a requested status among
  \<open>draft\<close>, \<open>sent\<close>, \<open>paid\<close>, \<open>overdue\<close>, \<open>cancelled\<close>, it stores the requested
  status (and the time of the update) whatever the status was before; a request whose
  status is absent or is any other string is answered 400 and changes nothing.
\<close>

theorem put_invoice_status_unchecked:
  assumes "invoiceDb_findById (invoices d) iid = Some iv"
  shows "(b_status body = Some s
            \<and> s \<in> {''draft'', ''sent'', ''paid'', ''overdue'', ''cancelled''} \<longrightarrow>
          (\<exists>k < length (invoices d). invoices d ! k = iv
             \<and> put_invoice_status e d iid body =
                 (Response 200 ''Invoice status updated successfully''
                    (Some (iv\<lparr>i_status := s, i_updatedAt := nowISO e\<rparr>)),
                  d\<lparr>invoices := (invoices d)[k := iv\<lparr>i_status := s, i_updatedAt := nowISO e\<rparr>]\<rparr>)))
       \<and> ((\<forall>t. b_status body = Some t \<longrightarrow>
              t \<notin> {''draft'', ''sent'', ''paid'', ''overdue'', ''cancelled''}) \<longrightarrow>
          put_invoice_status e d iid body = (Response 400 ''Invalid status'' None, d))"
proof (intro conjI impI)
  assume "b_status body = Some s
            \<and> s \<in> {''draft'', ''sent'', ''paid'', ''overdue'', ''cancelled''}"
  then have "b_status body = Some s" "s \<in> set valid_statuses"
    by (simp_all add: valid_statuses_def)
  from put_status_result [OF assms this]
  show "\<exists>k < length (invoices d). invoices d ! k = iv
             \<and> put_invoice_status e d iid body =
                 (Response 200 ''Invoice status updated successfully''
                    (Some (iv\<lparr>i_status := s, i_updatedAt := nowISO e\<rparr>)),
                  d\<lparr>invoices := (invoices d)[k := iv\<lparr>i_status := s, i_updatedAt := nowISO e\<rparr>]\<rparr>)" .
next
  assume bad: "\<forall>t. b_status body = Some t \<longrightarrow>
              t \<notin> {''draft'', ''sent'', ''paid'', ''overdue'', ''cancelled''}"
  show "put_invoice_status e d iid body = (Response 400 ''Invalid status'' None, d)"
  proof (cases "b_status body")
    case None
    then show ?thesis by (simp add: put_invoice_status_def)
  next
    case (Some t)
    with bad have "t \<notin> set valid_statuses" by (simp add: valid_statuses_def)
    with Some show ?thesis by (simp add: put_invoice_status_def)
  qed
qed

theorem put_invoice_status_unchecked_witness:
  "put_invoice_status env0 (db1 ''paid'') ''i1'' (status_body ''draft'') =
     (Response 200 ''Invoice status updated successfully''
        (Some (inv1\<lparr>i_status := ''draft'', i_updatedAt := nowISO env0\<rparr>)),
      db1 ''paid''\<lparr>invoices := [inv1\<lparr>i_status := ''draft'', i_updatedAt := nowISO env0\<rparr>]\<rparr>)
   \<and> put_invoice_status env0 (db1 ''paid'') ''i1'' (status_body ''void'') =
     (Response 400 ''Invalid status'' None, db1 ''paid'')"
proof -
  have f: "invoiceDb_findById (invoices (db1 ''paid'')) ''i1'' = Some (inv1\<lparr>i_status := ''paid''\<rparr>)"
    by (simp add: invoiceDb_findById_def db1_def inv1_def)
  have s: "b_status (status_body t) = Some t" for t
    by (simp add: status_body_def empty_body_def)
  have len: "length (invoices (db1 ''paid'')) = 1" by (simp add: db1_def)
  from put_invoice_status_unchecked [OF f, of "status_body ''draft''" "''draft''" env0]
    put_invoice_status_unchecked [OF f, of "status_body ''void''" "''void''" env0] s len
  show ?thesis by (auto simp: db1_def)
qed

text \<open>
  A paid invoice is put back to \<open>draft\<close>, and a sent one is stored as \<open>overdue\<close>: the
  route performs transitions outside draft-sent-paid and the two cancellations.
\<close>

theorem put_invoice_status_paid_to_draft:
  "map i_status (invoices (db1 ''paid'')) = [''paid'']
   \<and> map i_status (invoices (snd (put_invoice_status env0 (db1 ''paid'') ''i1''
        (status_body ''draft'')))) = [''draft'']
   \<and> map i_status (invoices (snd (put_invoice_status env0 (db1 ''sent'') ''i1''
        (status_body ''overdue'')))) = [''overdue'']"
  by (simp add: put_invoice_status_def status_body_def empty_body_def valid_statuses_def
      invoiceDb_findById_def invoiceDb_update_def spread_status_only db1_def inv1_def Let_def)

text \<open>
  Claim C5.  A successful status update (the invoice is found and the requested status is
  one of the five) changes, in the stored invoice, the status and \<open>updatedAt\<close> only: the
  id, number, client, project, items, subtotal, discount, discountAmount, tax, taxAmount,
  total, due date, notes, paid amount and creation time are as before, no total is
  recomputed, and every other record of the database is as before.
\<close>

theorem put_invoice_status_frame:
  assumes "invoiceDb_findById (invoices d) iid = Some iv"
    and "b_status body = Some s" and "s \<in> set valid_statuses"
  shows "\<exists>k iv'. k < length (invoices d) \<and> invoices d ! k = iv
           \<and> put_invoice_status e d iid body =
               (Response 200 ''Invoice status updated successfully'' (Some iv'),
                d\<lparr>invoices := (invoices d)[k := iv']\<rparr>)
           \<and> iv' = iv\<lparr>i_status := s, i_updatedAt := nowISO e\<rparr>
           \<and> i_id iv' = i_id iv \<and> i_invoiceNumber iv' = i_invoiceNumber iv
           \<and> i_clientId iv' = i_clientId iv \<and> i_projectId iv' = i_projectId iv
           \<and> i_items iv' = i_items iv \<and> i_subtotal iv' = i_subtotal iv
           \<and> i_discount iv' = i_discount iv \<and> i_discountAmount iv' = i_discountAmount iv
           \<and> i_tax iv' = i_tax iv \<and> i_taxAmount iv' = i_taxAmount iv
           \<and> i_total iv' = i_total iv \<and> i_dueDate iv' = i_dueDate iv
           \<and> i_notes iv' = i_notes iv \<and> i_paidAmount iv' = i_paidAmount iv
           \<and> i_createdAt iv' = i_createdAt iv"
proof -
  from put_status_result [OF assms, of e] obtain k where
    "k < length (invoices d)" "invoices d ! k = iv"
    "put_invoice_status e d iid body =
       (Response 200 ''Invoice status updated successfully''
          (Some (iv\<lparr>i_status := s, i_updatedAt := nowISO e\<rparr>)),
        d\<lparr>invoices := (invoices d)[k := iv\<lparr>i_status := s, i_updatedAt := nowISO e\<rparr>]\<rparr>)"
    by blast
  then show ?thesis
    by (intro exI [of _ k] exI [of _ "iv\<lparr>i_status := s, i_updatedAt := nowISO e\<rparr>"]) simp
qed

theorem put_invoice_status_frame_witness:
  "\<exists>iv'. put_invoice_status env0 (db1 ''draft'') ''i1'' (status_body ''sent'') =
            (Response 200 ''Invoice status updated successfully'' (Some iv'),
             db1 ''draft''\<lparr>invoices := [iv']\<rparr>)
         \<and> i_status iv' = ''sent''
         \<and> i_items iv' = i_items inv1 \<and> i_subtotal iv' = 100 \<and> i_discount iv' = 10
         \<and> i_discountAmount iv' = 10 \<and> i_tax iv' = 8 \<and> i_taxAmount iv' = 36 / 5
         \<and> i_total iv' = 486 / 5"
proof -
  have f: "invoiceDb_findById (invoices (db1 ''draft'')) ''i1'' = Some (inv1\<lparr>i_status := ''draft''\<rparr>)"
    by (simp add: invoiceDb_findById_def db1_def inv1_def)
  have s: "b_status (status_body ''sent'') = Some ''sent''"
    by (simp add: status_body_def empty_body_def)
  have v: "''sent'' \<in> set valid_statuses" by (simp add: valid_statuses_def)
  have len: "length (invoices (db1 ''draft'')) = 1" by (simp add: db1_def)
  from put_invoice_status_frame [OF f s v, of env0] len
  show ?thesis by (auto simp: db1_def inv1_def)
qed

lemma put_invoice_items_result:
  assumes "invoiceDb_findById (invoices d) iid = Some iv"
    and "b_items body = Some its"
  shows "\<exists>k iv'. k < length (invoices d) \<and> invoices d ! k = iv
           \<and> put_invoice e d iid body =
               (Response 200 ''Invoice updated successfully'' (Some iv'),
                d\<lparr>invoices := (invoices d)[k := iv']\<rparr>)
           \<and> i_items iv' = map_items its
           \<and> i_subtotal iv' = reduce_subtotal its
           \<and> i_discount iv' = ov (b_discount body) (i_discount iv)
           \<and> i_tax iv' = ov (b_tax body) (i_tax iv)
           \<and> i_discountAmount iv' =
               (case b_discount body of None \<Rightarrow> 0
                | Some dv \<Rightarrow> if dv \<noteq> 0 then reduce_subtotal its * dv / 100 else 0)
           \<and> i_taxAmount iv' =
               (case b_tax body of None \<Rightarrow> 0
                | Some tv \<Rightarrow> if tv \<noteq> 0
                    then (reduce_subtotal its -
                          (case b_discount body of None \<Rightarrow> 0
                           | Some dv \<Rightarrow> if dv \<noteq> 0 then reduce_subtotal its * dv / 100 else 0))
                         * tv / 100
                    else 0)
           \<and> i_total iv' = i_subtotal iv' - i_discountAmount iv' + i_taxAmount iv'"
proof -
  from assms(1) obtain k where k: "findIndex (\<lambda>x. i_id x = iid) (invoices d) = Some k"
    "k < length (invoices d)" "invoices d ! k = iv"
    unfolding invoiceDb_findById_def by (blast dest: find_findIndex)
  show ?thesis
    apply (rule exI [of _ k])
    using assms k
    by (simp add: put_invoice_def invoiceDb_update_def Let_def spread_invoice_def
        spread_body_def ov_def)
qed


text \<open>
  Claim C6 fails on the code.  A body whose item list is empty is refused by the creation
  route with 400; the update route takes it for every invoice found under the id (an empty
  array is truthy), answers 200 and stores the invoice with no items and with subtotal,
  discountAmount, taxAmount and total 0.
\<close>

theorem put_invoice_accepts_empty_items:
  assumes "invoiceDb_findById (invoices d) iid = Some iv"
    and "b_items body = Some []"
  shows "post_invoice e d body =
           (Response 400 ''Client and at least one item are required'' None, d)
       \<and> (\<exists>k iv'. k < length (invoices d) \<and> invoices d ! k = iv
             \<and> put_invoice e d iid body =
                 (Response 200 ''Invoice updated successfully'' (Some iv'),
                  d\<lparr>invoices := (invoices d)[k := iv']\<rparr>)
             \<and> i_items iv' = [] \<and> i_subtotal iv' = 0 \<and> i_discountAmount iv' = 0
             \<and> i_taxAmount iv' = 0 \<and> i_total iv' = 0)"
proof
  show "post_invoice e d body =
      (Response 400 ''Client and at least one item are required'' None, d)"
    using assms(2) by (simp add: post_invoice_def)
next
  from put_invoice_items_result [OF assms, of e] obtain k iv' where
    k: "k < length (invoices d)" "invoices d ! k = iv"
    and res: "put_invoice e d iid body =
               (Response 200 ''Invoice updated successfully'' (Some iv'),
                d\<lparr>invoices := (invoices d)[k := iv']\<rparr>)"
    and its: "i_items iv' = map_items []"
    and sub: "i_subtotal iv' = reduce_subtotal []"
    and da: "i_discountAmount iv' =
               (case b_discount body of None \<Rightarrow> 0
                | Some dv \<Rightarrow> if dv \<noteq> 0 then reduce_subtotal [] * dv / 100 else 0)"
    and ta: "i_taxAmount iv' =
               (case b_tax body of None \<Rightarrow> 0
                | Some tv \<Rightarrow> if tv \<noteq> 0
                    then (reduce_subtotal [] -
                          (case b_discount body of None \<Rightarrow> 0
                           | Some dv \<Rightarrow> if dv \<noteq> 0 then reduce_subtotal [] * dv / 100 else 0))
                         * tv / 100
                    else 0)"
    and tot: "i_total iv' = i_subtotal iv' - i_discountAmount iv' + i_taxAmount iv'"
    by blast
  have z: "reduce_subtotal [] = 0" by (simp add: reduce_subtotal_def)
  have i0: "i_items iv' = []" by (simp add: its map_items_def)
  have s0: "i_subtotal iv' = 0" by (simp add: sub z)
  have d0: "i_discountAmount iv' = 0" by (simp add: da z split: option.splits)
  have t0: "i_taxAmount iv' = 0" by (simp add: ta z split: option.splits)
  have "i_total iv' = 0" by (simp add: tot s0 d0 t0)
  with k res i0 s0 d0 t0
  show "\<exists>k iv'. k < length (invoices d) \<and> invoices d ! k = iv
             \<and> put_invoice e d iid body =
                 (Response 200 ''Invoice updated successfully'' (Some iv'),
                  d\<lparr>invoices := (invoices d)[k := iv']\<rparr>)
             \<and> i_items iv' = [] \<and> i_subtotal iv' = 0 \<and> i_discountAmount iv' = 0
             \<and> i_taxAmount iv' = 0 \<and> i_total iv' = 0"
    by blast
qed

theorem put_invoice_accepts_empty_items_witness:
  "post_invoice env0 (db1 ''draft'') no_items_body =
     (Response 400 ''Client and at least one item are required'' None, db1 ''draft'')
   \<and> (\<exists>iv'. put_invoice env0 (db1 ''draft'') ''i1'' no_items_body =
              (Response 200 ''Invoice updated successfully'' (Some iv'),
               db1 ''draft''\<lparr>invoices := [iv']\<rparr>)
           \<and> i_items iv' = [] \<and> i_subtotal iv' = 0 \<and> i_total iv' = 0)"
proof -
  have f: "invoiceDb_findById (invoices (db1 ''draft'')) ''i1'' = Some (inv1\<lparr>i_status := ''draft''\<rparr>)"
    by (simp add: invoiceDb_findById_def db1_def inv1_def)
  have b: "b_items no_items_body = Some []"
    by (simp add: no_items_body_def empty_body_def)
  have len: "length (invoices (db1 ''draft'')) = 1" by (simp add: db1_def)
  from put_invoice_accepts_empty_items [OF f b, of env0] len
  show ?thesis by (auto simp: db1_def)
qed

text \<open>
  Claim C9.  When the request's \<open>clientId\<close> is absent or names no stored client,
  \<open>POST /api/projects\<close> answers 400 with no project in the response and returns the database
  it was given: no project is added and no client record, so no \<open>totalProjects\<close>, changes.
  With title and clientId both present the message is \<open>Client not found\<close>.
\<close>

theorem post_project_unknown_client:
  assumes "\<forall>cid. pb_clientId body = Some cid \<longrightarrow> clientDb_findById (clients d) cid = None"
  shows "snd (post_project e d body) = d
       \<and> projects (snd (post_project e d body)) = projects d
       \<and> clients (snd (post_project e d body)) = clients d
       \<and> map c_totalProjects (clients (snd (post_project e d body)))
           = map c_totalProjects (clients d)
       \<and> code (fst (post_project e d body)) = 400
       \<and> payload (fst (post_project e d body)) = None
       \<and> (truthy_str (pb_title body) \<and> truthy_str (pb_clientId body) \<longrightarrow>
            message (fst (post_project e d body)) = ''Client not found'')"
proof (cases "truthy_str (pb_title body) \<and> truthy_str (pb_clientId body)")
  case False
  then have "post_project e d body =
      (Response 400 ''Title and client are required'' None, d)"
    by (auto simp: post_project_def)
  with False show ?thesis by simp
next
  case True
  then obtain cid where "pb_clientId body = Some cid"
    by (auto simp: truthy_str_def split: option.splits)
  with assms True have "post_project e d body = (Response 400 ''Client not found'' None, d)"
    by (simp add: post_project_def)
  then show ?thesis by simp
qed

theorem post_project_unknown_client_witness:
  "post_project env0 db0 unknown_client_body = (Response 400 ''Client not found'' None, db0)"
proof -
  have h: "\<forall>cid. pb_clientId unknown_client_body = Some cid \<longrightarrow>
             clientDb_findById (clients db0) cid = None"
    by (simp add: unknown_client_body_def clientDb_findById_def db0_def acme_def)
  have t: "truthy_str (pb_title unknown_client_body)" "truthy_str (pb_clientId unknown_client_body)"
    by (simp_all add: unknown_client_body_def truthy_str_def)
  from post_project_unknown_client [OF h, of env0] t
  show ?thesis by (cases "post_project env0 db0 unknown_client_body")
      (auto simp: response.expand)
qed

text \<open>
  Claim C7 fails on the code.  The overview counts a cancelled project whose end date has
  passed as overdue; the derivation of the specification, and the calendar route's own
  flag, leave it out.
\<close>

theorem overview_counts_cancelled_as_overdue:
  "o_overdue (projects_stats_overview env0
      \<lparr> clients = [acme], projects = [proj1 ''cancelled''], invoices = [] \<rparr>) = 1
   \<and> length (filter (overdue_as_specified env0) [proj1 ''cancelled'']) = 0
   \<and> \<not> events_isOverdue env0 ''past'' ''cancelled''"
  by (simp add: projects_stats_overview_def is_overdue_def overdue_as_specified_def
      events_isOverdue_def proj1_def env0_def Let_def)

text \<open>
  What the four computations of invoice totals share and where they part: the subtotal is
  not negative for positive quantities and non-negative rates, and the total is
  subtotal - discountAmount + taxAmount throughout; the form of the client (like the two
  routes) takes the tax on the discounted subtotal, the save hook on the subtotal itself.
\<close>

lemma reduce_subtotal_nonneg:
  assumes "\<forall>l \<in> set its. 0 < l_quantity l \<and> 0 \<le> l_rate l"
  shows "0 \<le> reduce_subtotal its"
  unfolding reduce_subtotal_sum
  using assms by (intro sum_list_nonneg) auto

lemma calculateTotals_totals:
  "t_subtotal (calculateTotals its dc tx) = sum_list (map (\<lambda>l. l_quantity l * l_rate l) its)"
  "t_discountAmount (calculateTotals its dc tx) = t_subtotal (calculateTotals its dc tx) * dc / 100"
  "t_taxAmount (calculateTotals its dc tx) =
     (t_subtotal (calculateTotals its dc tx) - t_discountAmount (calculateTotals its dc tx))
       * tx / 100"
  "t_total (calculateTotals its dc tx) =
     t_subtotal (calculateTotals its dc tx) - t_discountAmount (calculateTotals its dc tx)
       + t_taxAmount (calculateTotals its dc tx)"
  by (simp_all add: calculateTotals_def Let_def reduce_subtotal_sum)

lemma preSave_totals:
  "mi_subtotal (preSave m) = sum_list (map it_amount (mi_items m))"
  "mi_discountAmount (preSave m) = mi_subtotal (preSave m) * mi_discountRate m / 100"
  "mi_taxAmount (preSave m) = mi_subtotal (preSave m) * mi_taxRate m / 100"
  "mi_total (preSave m) =
     mi_subtotal (preSave m) - mi_discountAmount (preSave m) + mi_taxAmount (preSave m)"
  by (simp_all add: preSave_def Let_def foldl_add_sum_list)

text \<open>
  Claim C2 fails on the code.  The routes and the client form compute the tax on the
  subtotal after the discount (7.2 on 100 with 10 percent off and 8 percent tax, total
  97.2); the save hook of the Mongoose schema computes it on the raw subtotal (8, total 98).
\<close>

theorem preSave_taxes_raw_subtotal:
  "mi_subtotal (preSave m_inv0) = 100 \<and> mi_discountAmount (preSave m_inv0) = 10
   \<and> mi_taxAmount (preSave m_inv0) = 8
   \<and> (mi_subtotal (preSave m_inv0) - mi_discountAmount (preSave m_inv0))
        * mi_taxRate (preSave m_inv0) / 100 = 36 / 5
   \<and> mi_total (preSave m_inv0) = 98
   \<and> t_taxAmount (calculateTotals [line1 2 50] 10 8) = 36 / 5
   \<and> t_total (calculateTotals [line1 2 50] 10 8) = 486 / 5"
  by (simp add: preSave_def m_inv0_def calculateTotals_def reduce_subtotal_def line1_def
      Let_def)

section \<open>Properties of the double arithmetic\<close>

lemma log2_up_bounds: "1 \<le> x \<Longrightarrow> 2 ^ log2_up x \<le> x \<and> x < 2 * 2 ^ log2_up x"
proof (induction x rule: log2_up.induct)
  case (1 x)
  show ?case
  proof (cases "x < 2")
    case True
    with "1.prems" show ?thesis by (simp add: log2_up.simps)
  next
    case False
    then have "1 \<le> x / 2" by simp
    from "1.IH" [OF False this] False show ?thesis
      by (simp add: log2_up.simps [of x])
  qed
qed

lemma log2_down_bounds:
  "0 < x \<Longrightarrow> x < 1 \<Longrightarrow> 1 \<le> x * 2 ^ log2_down x \<and> x * 2 ^ log2_down x < 2"
proof (induction x rule: log2_down.induct)
  case (1 x)
  show ?case
  proof (cases "2 * x < 1")
    case True
    with "1.prems" have "\<not> (x \<le> 0 \<or> 1 \<le> x)" "0 < 2 * x" by simp_all
    from "1.IH" [OF this True] this(1) show ?thesis
      by (simp add: log2_down.simps [of x] mult.assoc mult.left_commute)
  next
    case False
    with "1.prems" have "log2_down x = 1"
      by (simp add: log2_down.simps [of x] log2_down.simps [of "2 * x"])
    with False "1.prems" show ?thesis by simp
  qed
qed

lemma ilog2_bounds:
  assumes "0 < x"
  shows "2 powi ilog2 x \<le> x \<and> x < 2 powi (ilog2 x + 1)"
proof (cases "1 \<le> x")
  case True
  with log2_up_bounds [OF True] show ?thesis
    by (simp add: ilog2_def power_int_add)
next
  case False
  with assms have x: "0 < x" "x < 1" by simp_all
  let ?n = "log2_down x"
  from log2_down_bounds [OF x] have b: "1 \<le> x * 2 ^ ?n" "x * 2 ^ ?n < 2" by simp_all
  have p: "(2::rat) powi (- int ?n) = 1 / 2 ^ ?n"
    by (simp add: power_int_minus_divide)
  have q: "(2::rat) powi (- int ?n + 1) = 2 * (1 / 2 ^ ?n)"
    using power_int_add_1 [of "2::rat" "- int ?n"] p by simp
  have "1 / 2 ^ ?n \<le> x" using b(1) by (simp add: field_simps)
  moreover have "x < 2 * (1 / 2 ^ ?n)" using b(2) by (simp add: field_simps)
  ultimately have "2 powi (- int ?n) \<le> x \<and> x < 2 powi (- int ?n + 1)"
    by (simp only: p q)
  moreover have "ilog2 x = - int ?n" using False by (simp add: ilog2_def)
  ultimately show ?thesis by simp
qed

lemma powi2_less_cancel: "(2::rat) powi a < 2 powi b \<Longrightarrow> a < b"
proof (rule ccontr)
  assume lt: "(2::rat) powi a < 2 powi b" and "\<not> a < b"
  then have "b \<le> a" by simp
  then have "(2::rat) powi b \<le> 2 powi a" by (intro power_int_increasing) simp_all
  with lt show False by simp
qed

lemma ilog2_unique:
  assumes "2 powi k \<le> x" and "x < 2 powi (k + 1)"
  shows "ilog2 x = k"
proof -
  have pos: "0 < x" using assms(1) zero_less_power_int [of "2::rat" k] by linarith
  note b = ilog2_bounds [OF pos]
  have "(2::rat) powi k < 2 powi (ilog2 x + 1)" using assms(1) b by linarith
  then have "k < ilog2 x + 1" by (rule powi2_less_cancel)
  moreover have "(2::rat) powi ilog2 x < 2 powi (k + 1)" using assms(2) b by linarith
  then have "ilog2 x < k + 1" by (rule powi2_less_cancel)
  ultimately show ?thesis by simp
qed

lemma rne_of_int [simp]: "rne (of_int n) = n"
  by (simp add: rne_def)

lemma rne_nonneg: "0 \<le> q \<Longrightarrow> 0 \<le> rne q"
  by (auto simp: rne_def Let_def)

lemma rne_le: 
  assumes "q \<le> of_int N"
  shows "rne q \<le> N"
proof (cases "\<lfloor>q\<rfloor> = N")
  case True
  with assms have "q = of_int N"
    by (metis of_int_floor_le order_antisym)
  then show ?thesis by simp
next
  case False
  moreover have "\<lfloor>q\<rfloor> \<le> N" using assms by (simp add: floor_le_iff) 
  ultimately have "\<lfloor>q\<rfloor> + 1 \<le> N" by simp
  then show ?thesis by (auto simp: rne_def Let_def)
qed

lemma round_mag_at:
  assumes "2 powi k \<le> x" and "x < 2 powi (k + 1)"
  shows "round_mag x =
           of_int (rne (x / 2 powi max (k - 52) (- 1074))) * 2 powi max (k - 52) (- 1074)"
  by (simp add: round_mag_def ilog2_unique [OF assms] Let_def)

lemma round_mag_repr:
  assumes "0 < x"
  shows "\<exists>n e. round_mag x = of_int n * 2 powi e \<and> 0 \<le> n \<and> n \<le> 2 ^ 53 \<and> - 1074 \<le> e"
proof -
  define k where "k = ilog2 x"
  define e where "e = max (k - 52) (- 1074)"
  define n where "n = rne (x / 2 powi e)"
  from ilog2_bounds [OF assms] have ub: "x < 2 powi (k + 1)" by (simp add: k_def)
  have pe: "(0::rat) < 2 powi e" by simp
  have "k + 1 \<le> e + 53" by (simp add: e_def)
  then have "(2::rat) powi (k + 1) \<le> 2 powi (e + 53)" by (intro power_int_increasing) simp_all
  also have "\<dots> = 2 powi e * 2 ^ 53" by (simp add: power_int_add)
  finally have "x < 2 powi e * 2 ^ 53" using ub by linarith
  then have "x / 2 powi e < 2 ^ 53" using pe by (simp add: field_simps)
  then have "x / 2 powi e \<le> of_int (2 ^ 53)" by simp
  then have "n \<le> 2 ^ 53" unfolding n_def by (rule rne_le)
  moreover have "0 \<le> n" unfolding n_def using assms by (intro rne_nonneg) simp
  moreover have "round_mag x = of_int n * 2 powi e"
    by (simp add: round_mag_def n_def e_def k_def Let_def)
  moreover have "- 1074 \<le> e" by (simp add: e_def)
  ultimately show ?thesis by blast
qed

lemma is_mag_round_mag:
  assumes "0 < x" and "round_mag x < 2 powi 1024"
  shows "is_mag (round_mag x)"
proof -
  from round_mag_repr [OF assms(1)] obtain n e where
    r: "round_mag x = of_int n * 2 powi e" "0 \<le> n" "n \<le> 2 ^ 53" "- 1074 \<le> e" by blast
  show ?thesis
  proof (cases "n = 2 ^ 53")
    case False
    with r(3) have "n < 2 ^ 53" by linarith
    with r(1,2,4) assms(2) show ?thesis unfolding is_mag_def by blast
  next
    case True
    have "(2::rat) powi (e + 1) = 2 powi e * 2" by (rule power_int_add_1) simp
    moreover have "(of_int n :: rat) = of_int (2 ^ 52) * 2" unfolding True by simp
    ultimately have "round_mag x = of_int (2 ^ 52) * 2 powi (e + 1)"
      unfolding r(1) by (simp only: mult.assoc mult.commute [of 2])
    moreover have "(0::int) \<le> 2 ^ 52" "(2::int) ^ 52 < 2 ^ 53" "- 1074 \<le> e + 1"
      using r(4) by simp_all
    ultimately show ?thesis using assms(2) unfolding is_mag_def by blast
  qed
qed

lemma round_mag_id:
  assumes "is_mag m" and "0 < m"
  shows "round_mag m = m"
proof -
  from assms(1) obtain n e where
    m: "m = of_int n * 2 powi e" "0 \<le> n" "n < 2 ^ 53" "- 1074 \<le> e"
    unfolding is_mag_def by blast
  define k where "k = ilog2 m"
  define E where "E = max (k - 52) (- 1074)"
  from ilog2_bounds [OF assms(2)] have lb: "2 powi k \<le> m" by (simp add: k_def)
  have "of_int n < (2::rat) ^ 53" using m(3) by (metis of_int_less_iff of_int_numeral of_int_power)
  then have "m < 2 ^ 53 * 2 powi e" unfolding m(1) by simp
  also have "\<dots> = 2 powi (e + 53)" by (simp add: power_int_add)
  finally have "(2::rat) powi k < 2 powi (e + 53)" using lb by linarith
  then have "k < e + 53" by (rule powi2_less_cancel)
  with m(4) have Ee: "E \<le> e" by (simp add: E_def)
  then obtain j where j: "e = E + int j" by (metis zle_iff_zadd)
  have "(2::rat) powi e = 2 powi E * 2 ^ j" unfolding j by (simp add: power_int_add)
  then have "m / 2 powi E = of_int (n * 2 ^ j)" unfolding m(1) by simp
  then have "rne (m / 2 powi E) = n * 2 ^ j" by (simp only: rne_of_int)
  then have "round_mag m = of_int (n * 2 ^ j) * 2 powi E"
    by (simp add: round_mag_def E_def k_def Let_def)
  also have "\<dots> = m" unfolding m(1) \<open>2 powi e = 2 powi E * 2 ^ j\<close> by simp
  finally show ?thesis .
qed

lemma wf_rnd: "wf_double (rnd s0 x)"
proof (cases "x = 0")
  case True
  have "is_mag 0" unfolding is_mag_def by (intro exI [of _ 0] exI [of _ 0]) simp
  with True show ?thesis by (simp add: rnd_def)
next
  case False
  then have "0 < \<bar>x\<bar>" by simp
  from is_mag_round_mag [OF this] False show ?thesis
    by (simp add: rnd_def Let_def not_le)
qed

lemma rnd_id:
  assumes "is_mag m" and "0 < m"
  shows "rnd s0 m = Finite False m" and "rnd s0 (- m) = Finite True m"
proof -
  have lt: "m < 2 powi 1024" using assms(1) unfolding is_mag_def by blast
  show "rnd s0 m = Finite False m"
    using assms(2) lt round_mag_id [OF assms] by (simp add: rnd_def Let_def)
  show "rnd s0 (- m) = Finite True m"
    using assms(2) lt round_mag_id [OF assms] by (simp add: rnd_def Let_def)
qed

lemma wf_dadd: "wf_double (dadd a b)"
  by (cases a; cases b) (simp_all add: wf_rnd)

lemma is_mag_of_nat:
  assumes "n < 2 ^ 53"
  shows "is_mag (of_nat n)"
proof -
  have "(of_nat n :: rat) = of_int (int n) * 2 powi 0" by simp
  moreover have "int n < 2 ^ 53" using assms by (metis of_nat_less_iff of_nat_numeral of_nat_power)
  moreover have "(of_nat n :: rat) < 2 ^ 53" using assms by (metis of_nat_less_iff of_nat_numeral of_nat_power)
  then have "(of_nat n :: rat) < 2 powi 1024" by simp
  ultimately show ?thesis unfolding is_mag_def by (intro exI [of _ "int n"] exI [of _ 0]) simp
qed

lemma rnd_of_nat:
  assumes "0 < n" and "n < 2 ^ 53"
  shows "rnd s0 (of_nat n) = Finite False (of_nat n)"
    and "rnd s0 (- of_nat n) = Finite True (of_nat n)"
  using rnd_id [OF is_mag_of_nat [OF assms(2)], of s0] assms(1) by simp_all

lemma rnd_numeral:
  assumes "(numeral w :: nat) < 2 ^ 53"
  shows "rnd s0 (numeral w) = Finite False (numeral w)"
    and "rnd s0 (- numeral w) = Finite True (numeral w)"
  using rnd_of_nat [OF _ assms, of s0] by simp_all

lemma num_0 [simp]: "num 0 = Finite False 0"
  by (simp add: num_def rnd_def)

lemma num_numeral: "(numeral w :: nat) < 2 ^ 53 \<Longrightarrow> num (numeral w) = Finite False (numeral w)"
  by (simp add: num_def rnd_numeral)

lemma rne_near:
  assumes "\<bar>q - of_int n\<bar> < 1 / 2"
  shows "rne q = n"
proof (cases "of_int n \<le> q")
  case True
  with assms have "q < of_int n + 1" by linarith
  with True have f: "\<lfloor>q\<rfloor> = n" by (rule floor_unique)
  from assms True have "q - of_int n < 1 / 2" by linarith
  with f show ?thesis by (simp add: rne_def)
next
  case False
  with assms have "of_int (n - 1) \<le> q" and "q < of_int (n - 1) + 1" by (simp; linarith)+
  then have f: "\<lfloor>q\<rfloor> = n - 1" by (rule floor_unique)
  from assms False have "1 / 2 < q - of_int (n - 1)" by simp
  with f show ?thesis by (simp add: rne_def)
qed

lemma rnd_near:
  assumes "2 powi k \<le> x" and "x < 2 powi (k + 1)"
    and "\<bar>x / 2 powi max (k - 52) (- 1074) - of_int n\<bar> < 1 / 2"
    and "of_int n * 2 powi max (k - 52) (- 1074) = m"
    and "m < 2 powi 1024"
  shows "rnd s0 x = Finite False m"
proof -
  have "0 < x" using assms(1) zero_less_power_int [of "2::rat" k] by linarith
  moreover have "round_mag x = m"
    unfolding round_mag_at [OF assms(1,2)] rne_near [OF assms(3)] by (rule assms(4))
  ultimately show ?thesis using assms(5) by (simp add: rnd_def Let_def)
qed

lemma num_7_2: "num (36 / 5) = Finite False (8106479329266893 / 2 ^ 50)"
  unfolding num_def by (rule rnd_near [where k = 2 and n = 8106479329266893]) simp_all

lemma num_97_2: "num (486 / 5) = Finite False (6839841934068941 / 2 ^ 46)"
  unfolding num_def by (rule rnd_near [where k = 6 and n = 6839841934068941]) simp_all

lemma ddiv_720_100: "ddiv (num 720) (num 100) = num (36 / 5)"
proof -
  have "ddiv (Finite False 720) (Finite False 100) = rnd False (36 / 5)" by simp
  then show ?thesis by (simp add: num_numeral) (simp add: num_def)
qed

lemma dadd_90_7_2: "dadd (num 90) (num (36 / 5)) = num (486 / 5)"
proof -
  have "rnd False (90 + 8106479329266893 / 2 ^ 50) = Finite False (6839841934068941 / 2 ^ 46)"
    by (rule rnd_near [where k = 6 and n = 6839841934068941]) simp_all
  then show ?thesis unfolding num_7_2 num_97_2 by (simp add: num_numeral)
qed

lemma dmul_overflow: "dmul (num 2) (Finite False (2 ^ 1023)) = Infinity False"
proof -
  have "round_mag (2 powi 1024) = 2 powi 1024"
    using round_mag_at [of 1024 "2 powi 1024"] by (simp add: rne_def Let_def)
  then show ?thesis by (simp add: num_numeral rnd_def Let_def)
qed

section \<open>Properties of the invoice routes over doubles\<close>

lemma is_mag_nonneg: "is_mag m \<Longrightarrow> 0 \<le> m"
  unfolding is_mag_def by auto

lemma dsub_zero:
  assumes "wf_double a"
  shows "dsub a (num 0) = a"
proof (cases a)
  case (Finite s m)
  with assms have mag: "is_mag m" by simp
  show ?thesis
  proof (cases "m = 0")
    case True
    with Finite show ?thesis by (simp add: dsub_def rnd_def)
  next
    case False
    with is_mag_nonneg [OF mag] have "0 < m" by simp
    from rnd_id [OF mag this, of s] Finite show ?thesis by (cases s) (simp_all add: dsub_def)
  qed
qed (simp_all add: dsub_def)

lemma json_dadd_zero:
  assumes "wf_double a"
  shows "json_of (dadd a (num 0)) = json_of a"
proof (cases a)
  case (Finite s m)
  with assms have mag: "is_mag m" by simp
  show ?thesis
  proof (cases "m = 0")
    case True
    with Finite show ?thesis by (simp add: rnd_def json_of_def)
  next
    case False
    with is_mag_nonneg [OF mag] have "0 < m" by simp
    from rnd_id [OF mag this, of False] Finite show ?thesis by simp
  qed
qed simp_all

lemma wf_foldl_dadd: "wf_double a \<Longrightarrow> wf_double (foldl (\<lambda>s x. dadd s (f x)) a xs)"
  by (induction xs arbitrary: a) (simp_all add: wf_dadd)

lemma wf_reduce_subtotal: "wf_double (reduce_subtotal_f64 its)"
proof -
  have "wf_double (num 0)" by (simp add: wf_rnd num_def)
  then show ?thesis unfolding reduce_subtotal_f64_def by (rule wf_foldl_dadd)
qed

lemma reduce_subtotal_f64_sum:
  "reduce_subtotal_f64 its =
     foldl dadd (num 0) (map (\<lambda>l. dmul (lf_quantity l) (lf_rate l)) its)"
  by (simp add: reduce_subtotal_f64_def foldl_map)

lemma json_total_zero_amounts:
  "json_of (dadd (dsub (reduce_subtotal_f64 its) (num 0)) (num 0)) = json_of (reduce_subtotal_f64 its)"
  by (simp only: dsub_zero [OF wf_reduce_subtotal] json_dadd_zero [OF wf_reduce_subtotal])

lemma json_times_zero:
  "json_of (ddiv (dmul (Finite s m) (num 0)) (num 100)) = Some (num 0)"
  by (simp add: num_numeral rnd_def json_of_def)

lemma map_items_f64_fields:
  "map jt_quantity (map_items_f64 its) = map (\<lambda>l. json_of (lf_quantity l)) its"
  "map jt_rate (map_items_f64 its) = map (\<lambda>l. json_of (lf_rate l)) its"
  "map jt_amount (map_items_f64 its) = map (\<lambda>l. json_of (dmul (lf_quantity l) (lf_rate l))) its"
  by (simp_all add: map_items_f64_def comp_def)

lemma post_invoice_f64_created:
  assumes "r_clientId body = Some cid" and "cid \<noteq> []"
    and "clientDb_findById (clients_f64 d) cid = Some c"
    and "r_items body = Some its" and "its \<noteq> []"
  shows "\<exists>iv. post_invoice_f64 e d body =
           (Response 201 ''Invoice created successfully'' (Some iv),
            d\<lparr>invoices_f64 := invoices_f64 d @ [iv]\<rparr>)
         \<and> j_items iv = map_items_f64 its
         \<and> j_subtotal iv = json_of (reduce_subtotal_f64 its)
         \<and> j_discount iv = json_of (num_or_0 (r_discount body))
         \<and> j_tax iv = json_of (num_or_0 (r_tax body))
         \<and> j_discountAmount iv = json_of
              (if truthy_opt (r_discount body)
               then ddiv (dmul (reduce_subtotal_f64 its) (the (r_discount body))) (num 100)
               else num 0)
         \<and> j_taxAmount iv = json_of
              (if truthy_opt (r_tax body)
               then ddiv (dmul (dsub (reduce_subtotal_f64 its)
                     (if truthy_opt (r_discount body)
                      then ddiv (dmul (reduce_subtotal_f64 its) (the (r_discount body))) (num 100)
                      else num 0)) (the (r_tax body))) (num 100)
               else num 0)
         \<and> j_total iv = json_of
              (dadd (dsub (reduce_subtotal_f64 its)
                 (if truthy_opt (r_discount body)
                  then ddiv (dmul (reduce_subtotal_f64 its) (the (r_discount body))) (num 100)
                  else num 0))
               (if truthy_opt (r_tax body)
                then ddiv (dmul (dsub (reduce_subtotal_f64 its)
                      (if truthy_opt (r_discount body)
                       then ddiv (dmul (reduce_subtotal_f64 its) (the (r_discount body))) (num 100)
                       else num 0)) (the (r_tax body))) (num 100)
                else num 0))
         \<and> j_status iv = ''draft''"
  using assms
  by (simp add: post_invoice_f64_def truthy_str_def Let_def invoiceDb_create_f64_def
      invoice_data_f64.defs invoice_f64.defs del: num_0)


lemma num_1: "num 1 = Finite False 1"
  using rnd_of_nat(1) [of 1 False] by (simp add: num_def)

lemma truthy_num_0 [simp]: "\<not> truthy_num (Finite s 0)"
  by (simp add: truthy_num_def)

lemma scenario_steps:
  "dadd (num 0) (dmul (num 2) (num 50)) = num 100"
  "ddiv (dmul (num 100) (num 10)) (num 100) = num 10"
  "dsub (num 100) (num 10) = num 90"
  "dmul (num 90) (num 8) = num 720"
  by (simp_all add: num_numeral rnd_numeral dsub_def)

lemma json_of_scenario:
  "json_of (num 100) = Some (num 100)" "json_of (num 10) = Some (num 10)"
  "json_of (num (36 / 5)) = Some (num (36 / 5))" "json_of (num (486 / 5)) = Some (num (486 / 5))"
  by (simp_all add: num_numeral num_7_2 num_97_2 json_of_def)

lemma truthy_scenario: "truthy_num (num 10)" "truthy_num (num 8)"
  by (simp_all add: num_numeral truthy_num_def)

text \<open>
  Claim C1, as the code has it.  When the request names an existing client and has at
  least one item, \<open>POST /api/invoices\<close> answers 201 and appends one invoice whose numbers
  are the results of the route's double arithmetic as JSON keeps them (\<open>null\<close> for an
  infinity or \<open>NaN\<close>): every item's amount is quantity times rate; the subtotal is the sum
  of the amounts, added from 0 in the order of the items; discount and tax are the
  requested percentages, 0 when absent or zero; discountAmount is
  subtotal * discount / 100 when the discount is not zero or the subtotal is finite, and
  0 otherwise; taxAmount is (subtotal - discountAmount) * tax / 100 when the tax is not zero
  or subtotal - discountAmount is finite, and 0 otherwise; the total is
  subtotal - discountAmount + taxAmount.  For the single item of quantity 2 and rate 50
  with discount 10 and tax 8 the stored numbers are 100, 10, 7.2 and 97.2.
\<close>

theorem post_invoice_f64_totals:
  assumes "r_clientId body = Some cid" and "cid \<noteq> []"
    and "clientDb_findById (clients_f64 d) cid = Some c"
    and "r_items body = Some its" and "its \<noteq> []"
  shows "\<exists>iv S D T DA TA.
           post_invoice_f64 e d body =
             (Response 201 ''Invoice created successfully'' (Some iv),
              d\<lparr>invoices_f64 := invoices_f64 d @ [iv]\<rparr>)
         \<and> map jt_quantity (j_items iv) = map (\<lambda>l. json_of (lf_quantity l)) its
         \<and> map jt_rate (j_items iv) = map (\<lambda>l. json_of (lf_rate l)) its
         \<and> map jt_amount (j_items iv) =
             map (\<lambda>l. json_of (dmul (lf_quantity l) (lf_rate l))) its
         \<and> S = foldl dadd (num 0) (map (\<lambda>l. dmul (lf_quantity l) (lf_rate l)) its)
         \<and> D = (case r_discount body of None \<Rightarrow> num 0
                 | Some x \<Rightarrow> if truthy_num x then x else num 0)
         \<and> T = (case r_tax body of None \<Rightarrow> num 0
                 | Some x \<Rightarrow> if truthy_num x then x else num 0)
         \<and> DA = (if truthy_num D then ddiv (dmul S D) (num 100) else num 0)
         \<and> TA = (if truthy_num T then ddiv (dmul (dsub S DA) T) (num 100) else num 0)
         \<and> j_subtotal iv = json_of S
         \<and> j_discount iv = json_of D \<and> j_tax iv = json_of T
         \<and> j_discountAmount iv = json_of DA \<and> j_taxAmount iv = json_of TA
         \<and> j_total iv = json_of (dadd (dsub S DA) TA)
         \<and> (truthy_num D \<or> is_finite S \<longrightarrow>
               j_discountAmount iv = json_of (ddiv (dmul S D) (num 100)))
         \<and> (truthy_num T \<or> is_finite (dsub S DA) \<longrightarrow>
               j_taxAmount iv = json_of (ddiv (dmul (dsub S DA) T) (num 100)))
         \<and> (map lf_quantity its = [num 2] \<and> map lf_rate its = [num 50]
              \<and> r_discount body = Some (num 10) \<and> r_tax body = Some (num 8) \<longrightarrow>
             j_subtotal iv = Some (num 100) \<and> j_discountAmount iv = Some (num 10)
              \<and> j_taxAmount iv = Some (num (36 / 5)) \<and> j_total iv = Some (num (486 / 5)))"
proof -
  define S where "S = foldl dadd (num 0) (map (\<lambda>l. dmul (lf_quantity l) (lf_rate l)) its)"
  define D where "D = (case r_discount body of None \<Rightarrow> num 0
                 | Some x \<Rightarrow> if truthy_num x then x else num 0)"
  define T where "T = (case r_tax body of None \<Rightarrow> num 0
                 | Some x \<Rightarrow> if truthy_num x then x else num 0)"
  define DA where "DA = (if truthy_num D then ddiv (dmul S D) (num 100) else num 0)"
  define TA where "TA = (if truthy_num T then ddiv (dmul (dsub S DA) T) (num 100) else num 0)"
  have S: "reduce_subtotal_f64 its = S" by (simp only: S_def reduce_subtotal_f64_sum)
  have D: "num_or_0 (r_discount body) = D" by (simp only: D_def num_or_0_def)
  have T: "num_or_0 (r_tax body) = T" by (simp only: T_def num_or_0_def)
  have tD: "truthy_opt (r_discount body) = truthy_num D"
    by (simp add: D_def truthy_opt_def split: option.splits)
  have tT: "truthy_opt (r_tax body) = truthy_num T"
    by (simp add: T_def truthy_opt_def split: option.splits)
  have dD: "truthy_num D \<Longrightarrow> the (r_discount body) = D"
    by (auto simp: D_def split: option.splits if_splits)
  have dT: "truthy_num T \<Longrightarrow> the (r_tax body) = T"
    by (auto simp: T_def split: option.splits if_splits)
  have DA: "(if truthy_opt (r_discount body)
               then ddiv (dmul (reduce_subtotal_f64 its) (the (r_discount body))) (num 100)
               else num 0) = DA"
    unfolding S tD DA_def using dD by simp
  have TA: "(if truthy_opt (r_tax body)
               then ddiv (dmul (dsub (reduce_subtotal_f64 its) DA) (the (r_tax body))) (num 100)
               else num 0) = TA"
    unfolding S tT TA_def using dT by simp
  from post_invoice_f64_created [OF assms, of e] obtain iv where
    res: "post_invoice_f64 e d body =
           (Response 201 ''Invoice created successfully'' (Some iv),
            d\<lparr>invoices_f64 := invoices_f64 d @ [iv]\<rparr>)"
    and items: "j_items iv = map_items_f64 its"
    and sub: "j_subtotal iv = json_of S"
    and disc: "j_discount iv = json_of D"
    and tax: "j_tax iv = json_of T"
    and da: "j_discountAmount iv = json_of DA"
    and ta: "j_taxAmount iv = json_of TA"
    and tot: "j_total iv = json_of (dadd (dsub S DA) TA)"
    unfolding DA TA unfolding S D T by blast
  have q: "map jt_quantity (j_items iv) = map (\<lambda>l. json_of (lf_quantity l)) its"
    and r: "map jt_rate (j_items iv) = map (\<lambda>l. json_of (lf_rate l)) its"
    and am: "map jt_amount (j_items iv) =
             map (\<lambda>l. json_of (dmul (lf_quantity l) (lf_rate l))) its"
    by (simp_all only: items map_items_f64_fields)
  have inv_d: "truthy_num D \<or> is_finite S \<longrightarrow>
               j_discountAmount iv = json_of (ddiv (dmul S D) (num 100))"
  proof (cases "truthy_num D")
    case True
    then show ?thesis by (simp add: da DA_def)
  next
    case False
    then have D0: "D = num 0" by (auto simp: D_def split: option.splits)
    show ?thesis
    proof (intro impI)
      assume "truthy_num D \<or> is_finite S"
      with False obtain s m where "S = Finite s m" by (cases S) simp_all
      with False show "j_discountAmount iv = json_of (ddiv (dmul S D) (num 100))"
        unfolding da DA_def D0 by (simp only: json_times_zero if_False) (simp add: json_of_def)
    qed
  qed
  have inv_t: "truthy_num T \<or> is_finite (dsub S DA) \<longrightarrow>
               j_taxAmount iv = json_of (ddiv (dmul (dsub S DA) T) (num 100))"
  proof (cases "truthy_num T")
    case True
    then show ?thesis by (simp add: ta TA_def)
  next
    case False
    then have T0: "T = num 0" by (auto simp: T_def split: option.splits)
    show ?thesis
    proof (intro impI)
      assume "truthy_num T \<or> is_finite (dsub S DA)"
      with False obtain s m where "dsub S DA = Finite s m" by (cases "dsub S DA") simp_all
      with False show "j_taxAmount iv = json_of (ddiv (dmul (dsub S DA) T) (num 100))"
        unfolding ta TA_def T0 by (simp only: json_times_zero if_False) (simp add: json_of_def)
    qed
  qed
  have scen: "map lf_quantity its = [num 2] \<and> map lf_rate its = [num 50]
              \<and> r_discount body = Some (num 10) \<and> r_tax body = Some (num 8) \<longrightarrow>
             j_subtotal iv = Some (num 100) \<and> j_discountAmount iv = Some (num 10)
              \<and> j_taxAmount iv = Some (num (36 / 5)) \<and> j_total iv = Some (num (486 / 5))"
  proof (intro impI, elim conjE)
    assume h: "map lf_quantity its = [num 2]" "map lf_rate its = [num 50]"
      "r_discount body = Some (num 10)" "r_tax body = Some (num 8)"
    from h(1,2) obtain l where l: "its = [l]" "lf_quantity l = num 2" "lf_rate l = num 50"
      by (cases its) auto
    have S100: "S = num 100" unfolding S_def l(1) by (simp only: list.map foldl.simps l(2,3) scenario_steps)
    have D10: "D = num 10" unfolding D_def h(3) by (simp add: truthy_scenario)
    have T8: "T = num 8" unfolding T_def h(4) by (simp add: truthy_scenario)
    have DA10: "DA = num 10" unfolding DA_def D10 S100 by (simp only: truthy_scenario if_True scenario_steps)
    have TA72: "TA = num (36 / 5)" unfolding TA_def T8 S100 DA10
      by (simp only: truthy_scenario if_True scenario_steps ddiv_720_100)
    have "dadd (dsub S DA) TA = num (486 / 5)" unfolding S100 DA10 TA72
      by (simp only: scenario_steps dadd_90_7_2)
    then show "j_subtotal iv = Some (num 100) \<and> j_discountAmount iv = Some (num 10)
              \<and> j_taxAmount iv = Some (num (36 / 5)) \<and> j_total iv = Some (num (486 / 5))"
      unfolding sub da ta tot S100 DA10 TA72 by (simp only: json_of_scenario simp_thms)
  qed
  from res q r am sub disc tax da ta tot inv_d inv_t scen S_def D_def T_def DA_def TA_def
  show ?thesis by blast
qed


theorem post_invoice_f64_totals_witness:
  "\<exists>iv. post_invoice_f64 env0 db0_f64 scenario_body =
           (Response 201 ''Invoice created successfully'' (Some iv),
            db0_f64\<lparr>invoices_f64 := invoices_f64 db0_f64 @ [iv]\<rparr>)
         \<and> j_subtotal iv = Some (num 100) \<and> j_discountAmount iv = Some (num 10)
         \<and> j_taxAmount iv = Some (num (36 / 5)) \<and> j_total iv = Some (num (486 / 5))"
proof -
  have h1: "r_clientId scenario_body = Some ''c1''"
    and h4: "r_items scenario_body = Some [line_f64_of (num 2) (num 50)]"
    and h6: "r_discount scenario_body = Some (num 10)" and h7: "r_tax scenario_body = Some (num 8)"
    by (simp_all add: scenario_body_def empty_body_f64_def del: num_0)
  have h2: "''c1'' \<noteq> []" and h5: "[line_f64_of (num 2) (num 50)] \<noteq> []" by simp_all
  have h3: "clientDb_findById (clients_f64 db0_f64) ''c1'' = Some acme"
    by (simp add: clientDb_findById_def db0_f64_def acme_def)
  have h8: "map lf_quantity [line_f64_of (num 2) (num 50)] = [num 2]"
    "map lf_rate [line_f64_of (num 2) (num 50)] = [num 50]"
    by (simp_all add: line_f64_of_def)
  from post_invoice_f64_totals [OF h1 h2 h3 h4 h5, of env0] h6 h7 h8
  show ?thesis by blast
qed

lemma put_invoice_f64_items_result:
  assumes "invoiceDb_findById_f64 (invoices_f64 d) iid = Some iv"
    and "r_items body = Some its"
  shows "\<exists>k iv'. k < length (invoices_f64 d) \<and> invoices_f64 d ! k = iv
           \<and> put_invoice_f64 e d iid body =
               (Response 200 ''Invoice updated successfully'' (Some iv'),
                d\<lparr>invoices_f64 := (invoices_f64 d)[k := iv']\<rparr>)
           \<and> j_items iv' = map_items_f64 its
           \<and> j_subtotal iv' = json_of (reduce_subtotal_f64 its)
           \<and> j_discount iv' = ov (map_option json_of (r_discount body)) (j_discount iv)
           \<and> j_tax iv' = ov (map_option json_of (r_tax body)) (j_tax iv)
           \<and> j_discountAmount iv' = json_of
               (if truthy_opt (r_discount body)
                then ddiv (dmul (reduce_subtotal_f64 its) (the (r_discount body))) (num 100)
                else num 0)
           \<and> j_taxAmount iv' = json_of
               (if truthy_opt (r_tax body)
                then ddiv (dmul (dsub (reduce_subtotal_f64 its)
                      (if truthy_opt (r_discount body)
                       then ddiv (dmul (reduce_subtotal_f64 its) (the (r_discount body))) (num 100)
                       else num 0)) (the (r_tax body))) (num 100)
                else num 0)
           \<and> j_total iv' = json_of
               (dadd (dsub (reduce_subtotal_f64 its)
                  (if truthy_opt (r_discount body)
                   then ddiv (dmul (reduce_subtotal_f64 its) (the (r_discount body))) (num 100)
                   else num 0))
                (if truthy_opt (r_tax body)
                 then ddiv (dmul (dsub (reduce_subtotal_f64 its)
                       (if truthy_opt (r_discount body)
                        then ddiv (dmul (reduce_subtotal_f64 its) (the (r_discount body))) (num 100)
                        else num 0)) (the (r_tax body))) (num 100)
                 else num 0))"
proof -
  from assms(1) obtain k where k: "findIndex (\<lambda>x. j_id x = iid) (invoices_f64 d) = Some k"
    "k < length (invoices_f64 d)" "invoices_f64 d ! k = iv"
    unfolding invoiceDb_findById_f64_def by (blast dest: find_findIndex)
  show ?thesis
    apply (rule exI [of _ k])
    using assms k
    by (simp add: put_invoice_f64_def invoiceDb_update_f64_def Let_def spread_invoice_f64_def
        spread_body_f64_def ov_def del: num_0)
qed

lemma json_of_zero_iff: "json_of y = Some (num 0) \<longleftrightarrow> is_zero y"
  by (cases y) (auto simp: json_of_def)

lemma is_zero_times:
  assumes "is_zero x" and "is_finite p"
  shows "is_zero (ddiv (dmul x p) (num 100))"
    and "is_zero (ddiv (dmul (dsub x (num 0)) p) (num 100))"
proof -
  from assms obtain s t n where x: "x = Finite s 0" and p: "p = Finite t n"
    by (cases x; cases p) simp_all
  show "is_zero (ddiv (dmul x p) (num 100))"
    unfolding x p by (simp add: num_numeral rnd_def)
  show "is_zero (ddiv (dmul (dsub x (num 0)) p) (num 100))"
    unfolding x p by (simp add: num_numeral rnd_def dsub_def)
qed

text \<open>
  Claim C10, as the code has it.  For an invoice found under the id, an update whose body
  has a non-empty item list and neither \<open>discount\<close> nor \<open>tax\<close> stores discountAmount = 0,
  taxAmount = 0 and total = the new subtotal (the double sum of the new amounts, \<open>null\<close> when
  it is not finite), and keeps the stored discount and tax percentages.  Of the documented
  equations, discountAmount = subtotal * discount / 100 then holds for the record exactly
  when subtotal * discount / 100 evaluates to zero, and
  taxAmount = (subtotal - discountAmount) * tax / 100 exactly when its right-hand side
  does; both are zero whenever the new subtotal is zero.
\<close>

theorem put_invoice_f64_items_only:
  assumes "invoiceDb_findById_f64 (invoices_f64 d) iid = Some iv"
    and "r_items body = Some its" and "its \<noteq> []"
    and "r_discount body = None" and "r_tax body = None"
  shows "\<exists>k iv'. k < length (invoices_f64 d) \<and> invoices_f64 d ! k = iv
           \<and> put_invoice_f64 e d iid body =
               (Response 200 ''Invoice updated successfully'' (Some iv'),
                d\<lparr>invoices_f64 := (invoices_f64 d)[k := iv']\<rparr>)
           \<and> j_subtotal iv' =
               json_of (foldl dadd (num 0) (map (\<lambda>l. dmul (lf_quantity l) (lf_rate l)) its))
           \<and> j_discountAmount iv' = Some (num 0) \<and> j_taxAmount iv' = Some (num 0)
           \<and> j_total iv' = j_subtotal iv'
           \<and> j_discount iv' = j_discount iv \<and> j_tax iv' = j_tax iv
           \<and> (\<forall>x p. j_subtotal iv' = Some x \<and> j_discount iv' = Some p \<longrightarrow>
                 (j_discountAmount iv' = json_of (ddiv (dmul x p) (num 100))
                    \<longleftrightarrow> is_zero (ddiv (dmul x p) (num 100)))
               \<and> (is_zero x \<and> is_finite p \<longrightarrow> is_zero (ddiv (dmul x p) (num 100))))
           \<and> (\<forall>x p. j_subtotal iv' = Some x \<and> j_tax iv' = Some p \<longrightarrow>
                 (j_taxAmount iv' = json_of (ddiv (dmul (dsub x (num 0)) p) (num 100))
                    \<longleftrightarrow> is_zero (ddiv (dmul (dsub x (num 0)) p) (num 100)))
               \<and> (is_zero x \<and> is_finite p \<longrightarrow>
                    is_zero (ddiv (dmul (dsub x (num 0)) p) (num 100))))"
proof -
  from put_invoice_f64_items_result [OF assms(1,2), of e] obtain k iv' where
    k: "k < length (invoices_f64 d)" "invoices_f64 d ! k = iv"
    and res: "put_invoice_f64 e d iid body =
               (Response 200 ''Invoice updated successfully'' (Some iv'),
                d\<lparr>invoices_f64 := (invoices_f64 d)[k := iv']\<rparr>)"
    and sub: "j_subtotal iv' = json_of (reduce_subtotal_f64 its)"
    and disc: "j_discount iv' = ov (map_option json_of (r_discount body)) (j_discount iv)"
    and tax: "j_tax iv' = ov (map_option json_of (r_tax body)) (j_tax iv)"
    and da: "j_discountAmount iv' = json_of
               (if truthy_opt (r_discount body)
                then ddiv (dmul (reduce_subtotal_f64 its) (the (r_discount body))) (num 100)
                else num 0)"
    and ta: "j_taxAmount iv' = json_of
               (if truthy_opt (r_tax body)
                then ddiv (dmul (dsub (reduce_subtotal_f64 its)
                      (if truthy_opt (r_discount body)
                       then ddiv (dmul (reduce_subtotal_f64 its) (the (r_discount body))) (num 100)
                       else num 0)) (the (r_tax body))) (num 100)
                else num 0)"
    and tot: "j_total iv' = json_of
               (dadd (dsub (reduce_subtotal_f64 its)
                  (if truthy_opt (r_discount body)
                   then ddiv (dmul (reduce_subtotal_f64 its) (the (r_discount body))) (num 100)
                   else num 0))
                (if truthy_opt (r_tax body)
                 then ddiv (dmul (dsub (reduce_subtotal_f64 its)
                       (if truthy_opt (r_discount body)
                        then ddiv (dmul (reduce_subtotal_f64 its) (the (r_discount body))) (num 100)
                        else num 0)) (the (r_tax body))) (num 100)
                 else num 0))"
    by blast
  have nd: "\<not> truthy_opt (r_discount body)" and nt: "\<not> truthy_opt (r_tax body)"
    by (simp_all add: truthy_opt_def assms(4,5))
  have zero: "json_of (num 0) = Some (num 0)" by (simp add: json_of_def)
  have s: "j_subtotal iv' =
      json_of (foldl dadd (num 0) (map (\<lambda>l. dmul (lf_quantity l) (lf_rate l)) its))"
    by (simp only: sub reduce_subtotal_f64_sum)
  have da0: "j_discountAmount iv' = Some (num 0)" by (simp only: da nd if_False zero)
  have ta0: "j_taxAmount iv' = Some (num 0)" by (simp only: ta nt if_False zero)
  have t: "j_total iv' = j_subtotal iv'"
    by (simp only: tot nd nt if_False json_total_zero_amounts sub)
  have d: "j_discount iv' = j_discount iv" by (simp add: disc assms(4) ov_def)
  have x: "j_tax iv' = j_tax iv" by (simp add: tax assms(5) ov_def)
  have b1: "\<forall>x p. j_subtotal iv' = Some x \<and> j_discount iv' = Some p \<longrightarrow>
                 (j_discountAmount iv' = json_of (ddiv (dmul x p) (num 100))
                    \<longleftrightarrow> is_zero (ddiv (dmul x p) (num 100)))
               \<and> (is_zero x \<and> is_finite p \<longrightarrow> is_zero (ddiv (dmul x p) (num 100)))"
    unfolding da0 using json_of_zero_iff is_zero_times(1) by metis
  have b2: "\<forall>x p. j_subtotal iv' = Some x \<and> j_tax iv' = Some p \<longrightarrow>
                 (j_taxAmount iv' = json_of (ddiv (dmul (dsub x (num 0)) p) (num 100))
                    \<longleftrightarrow> is_zero (ddiv (dmul (dsub x (num 0)) p) (num 100)))
               \<and> (is_zero x \<and> is_finite p \<longrightarrow>
                    is_zero (ddiv (dmul (dsub x (num 0)) p) (num 100)))"
    unfolding ta0 using json_of_zero_iff is_zero_times(2) by metis
  from k res s da0 ta0 t d x b1 b2 show ?thesis by blast
qed


lemma db1_f64_find:
  "invoiceDb_findById_f64 (invoices_f64 db1_f64) ''i1'' = Some inv1_f64"
  by (simp add: invoiceDb_findById_f64_def db1_f64_def inv1_f64_def)

theorem put_invoice_f64_items_only_witness:
  "\<exists>iv'. put_invoice_f64 env0 db1_f64 ''i1'' new_items_body =
            (Response 200 ''Invoice updated successfully'' (Some iv'),
             db1_f64\<lparr>invoices_f64 := [iv']\<rparr>)
         \<and> j_subtotal iv' = Some (num 300) \<and> j_total iv' = Some (num 300)
         \<and> j_discountAmount iv' = Some (num 0) \<and> j_taxAmount iv' = Some (num 0)
         \<and> j_discount iv' = Some (num 10) \<and> j_tax iv' = Some (num 8)
         \<and> j_discountAmount iv' \<noteq> json_of (ddiv (dmul (num 300) (num 10)) (num 100))
         \<and> j_taxAmount iv' \<noteq> json_of (ddiv (dmul (dsub (num 300) (num 0)) (num 8)) (num 100))"
proof -
  let ?its = "[line_f64_of (num 3) (num 100)]"
  have b: "r_items new_items_body = Some ?its" "?its \<noteq> []"
    "r_discount new_items_body = None" "r_tax new_items_body = None"
    by (simp_all add: new_items_body_def empty_body_f64_def del: num_0)
  have len: "length (invoices_f64 db1_f64) = 1" by (simp add: db1_f64_def)
  have old: "j_discount inv1_f64 = Some (num 10)" "j_tax inv1_f64 = Some (num 8)"
    by (simp_all add: inv1_f64_def)
  have S: "json_of (foldl dadd (num 0) (map (\<lambda>l. dmul (lf_quantity l) (lf_rate l)) ?its))
             = Some (num 300)"
    by (simp add: line_f64_of_def num_numeral rnd_numeral json_of_def)
  have nz: "\<not> is_zero (ddiv (dmul (num 300) (num 10)) (num 100))"
    "\<not> is_zero (ddiv (dmul (dsub (num 300) (num 0)) (num 8)) (num 100))"
    by (simp_all add: num_numeral rnd_numeral dsub_def)
  from put_invoice_f64_items_only [OF db1_f64_find b, of env0] obtain k iv' where
    r: "k < length (invoices_f64 db1_f64)"
      "put_invoice_f64 env0 db1_f64 ''i1'' new_items_body =
         (Response 200 ''Invoice updated successfully'' (Some iv'),
          db1_f64\<lparr>invoices_f64 := (invoices_f64 db1_f64)[k := iv']\<rparr>)"
      "j_subtotal iv' =
         json_of (foldl dadd (num 0) (map (\<lambda>l. dmul (lf_quantity l) (lf_rate l)) ?its))"
      "j_discountAmount iv' = Some (num 0)" "j_taxAmount iv' = Some (num 0)"
      "j_total iv' = j_subtotal iv'"
      "j_discount iv' = j_discount inv1_f64" "j_tax iv' = j_tax inv1_f64"
    and inv_d: "\<forall>x p. j_subtotal iv' = Some x \<and> j_discount iv' = Some p \<longrightarrow>
                 (j_discountAmount iv' = json_of (ddiv (dmul x p) (num 100))
                    \<longleftrightarrow> is_zero (ddiv (dmul x p) (num 100)))
               \<and> (is_zero x \<and> is_finite p \<longrightarrow> is_zero (ddiv (dmul x p) (num 100)))"
    and inv_t: "\<forall>x p. j_subtotal iv' = Some x \<and> j_tax iv' = Some p \<longrightarrow>
                 (j_taxAmount iv' = json_of (ddiv (dmul (dsub x (num 0)) p) (num 100))
                    \<longleftrightarrow> is_zero (ddiv (dmul (dsub x (num 0)) p) (num 100)))
               \<and> (is_zero x \<and> is_finite p \<longrightarrow>
                    is_zero (ddiv (dmul (dsub x (num 0)) p) (num 100)))"
    by blast
  from r(1) len have k0: "k = 0" by simp
  have l: "(invoices_f64 db1_f64)[0 := iv'] = [iv']" by (simp add: db1_f64_def)
  have sub: "j_subtotal iv' = Some (num 300)" by (simp only: r(3) S)
  have dsc: "j_discount iv' = Some (num 10)" and tx: "j_tax iv' = Some (num 8)"
    by (simp_all only: r(7,8) old)
  from inv_d sub dsc nz(1)
  have n1: "j_discountAmount iv' \<noteq> json_of (ddiv (dmul (num 300) (num 10)) (num 100))" by blast
  from inv_t sub tx nz(2)
  have n2: "j_taxAmount iv' \<noteq> json_of (ddiv (dmul (dsub (num 300) (num 0)) (num 8)) (num 100))"
    by blast
  have res: "put_invoice_f64 env0 db1_f64 ''i1'' new_items_body =
            (Response 200 ''Invoice updated successfully'' (Some iv'),
             db1_f64\<lparr>invoices_f64 := [iv']\<rparr>)"
    using r(2) unfolding k0 l .
  from res sub r(4,5,6) dsc tx n1 n2 show ?thesis by (intro exI [of _ iv']) simp
qed

text \<open>
  An update to a single item of quantity 1 and rate 0 keeps the stored discount 10 and
  tax 8 and leaves both documented equations true of the record: the subtotal is 0.
\<close>

theorem put_invoice_f64_zero_rate:
  "j_discount zero_rate_result = Some (num 10) \<and> j_tax zero_rate_result = Some (num 8)
   \<and> j_subtotal zero_rate_result = Some (num 0)
   \<and> j_discountAmount zero_rate_result = Some (num 0)
   \<and> j_taxAmount zero_rate_result = Some (num 0)
   \<and> j_discountAmount zero_rate_result =
       json_of (ddiv (dmul (the (j_subtotal zero_rate_result))
                  (the (j_discount zero_rate_result))) (num 100))
   \<and> j_taxAmount zero_rate_result =
       json_of (ddiv (dmul (dsub (the (j_subtotal zero_rate_result))
                  (the (j_discountAmount zero_rate_result)))
                  (the (j_tax zero_rate_result))) (num 100))"
proof -
  let ?its = "[line_f64_of (num 1) (num 0)]"
  have b: "r_items zero_rate_body = Some ?its"
    "r_discount zero_rate_body = None" "r_tax zero_rate_body = None"
    by (simp_all add: zero_rate_body_def empty_body_f64_def del: num_0)
  have len: "length (invoices_f64 db1_f64) = 1" by (simp add: db1_f64_def)
  have S: "reduce_subtotal_f64 ?its = num 0"
    by (simp add: reduce_subtotal_f64_def line_f64_of_def num_1 rnd_def)
  have zero: "json_of (num 0) = Some (num 0)" by (simp add: json_of_def)
  from put_invoice_f64_items_result [OF db1_f64_find b(1), of env0] obtain k iv' where
    r: "k < length (invoices_f64 db1_f64)"
      "put_invoice_f64 env0 db1_f64 ''i1'' zero_rate_body =
         (Response 200 ''Invoice updated successfully'' (Some iv'),
          db1_f64\<lparr>invoices_f64 := (invoices_f64 db1_f64)[k := iv']\<rparr>)"
      "j_subtotal iv' = json_of (reduce_subtotal_f64 ?its)"
      "j_discount iv' = ov (map_option json_of (r_discount zero_rate_body)) (j_discount inv1_f64)"
      "j_tax iv' = ov (map_option json_of (r_tax zero_rate_body)) (j_tax inv1_f64)"
      "j_discountAmount iv' = json_of
               (if truthy_opt (r_discount zero_rate_body)
                then ddiv (dmul (reduce_subtotal_f64 ?its) (the (r_discount zero_rate_body))) (num 100)
                else num 0)"
      "j_taxAmount iv' = json_of
               (if truthy_opt (r_tax zero_rate_body)
                then ddiv (dmul (dsub (reduce_subtotal_f64 ?its)
                      (if truthy_opt (r_discount zero_rate_body)
                       then ddiv (dmul (reduce_subtotal_f64 ?its) (the (r_discount zero_rate_body))) (num 100)
                       else num 0)) (the (r_tax zero_rate_body))) (num 100)
                else num 0)"
    by blast
  from r(1) len have k0: "k = 0" by simp
  have "(invoices_f64 db1_f64)[0 := iv'] = [iv']" by (simp add: db1_f64_def)
  then have z: "zero_rate_result = iv'" unfolding zero_rate_result_def r(2) k0 by simp
  have sub: "j_subtotal iv' = Some (num 0)" by (simp only: r(3) S zero)
  have dsc: "j_discount iv' = Some (num 10)" and tx: "j_tax iv' = Some (num 8)"
    unfolding r(4,5) b(2,3) by (simp_all add: ov_def inv1_f64_def del: num_0)
  have da: "j_discountAmount iv' = Some (num 0)" and ta: "j_taxAmount iv' = Some (num 0)"
    unfolding r(6,7) b(2,3) by (simp_all add: truthy_opt_def json_of_def)
  have f1: "json_of (ddiv (dmul (num 0) (num 10)) (num 100)) = Some (num 0)"
    and f2: "json_of (ddiv (dmul (dsub (num 0) (num 0)) (num 8)) (num 100)) = Some (num 0)"
    by (simp_all add: num_numeral rnd_def dsub_def json_of_def)
  show ?thesis unfolding z sub dsc tx da ta option.sel f1 f2 by simp
qed


lemma rne_half:
  assumes "q = of_int n + 1 / 2"
  shows "rne q = (if even n then n else n + 1)"
proof -
  have "of_int n \<le> q" "q < of_int n + 1" unfolding assms by simp_all
  then have "\<lfloor>q\<rfloor> = n" by (rule floor_unique)
  then show ?thesis unfolding assms by (simp add: rne_def)
qed

lemma rnd_at:
  assumes "2 powi k \<le> x" and "x < 2 powi (k + 1)"
    and "rne (x / 2 powi max (k - 52) (- 1074)) = n"
    and "of_int n * 2 powi max (k - 52) (- 1074) = m"
    and "m < 2 powi 1024"
  shows "rnd s0 x = Finite False m"
proof -
  have "0 < x" using assms(1) zero_less_power_int [of "2::rat" k] by linarith
  moreover have "round_mag x = m"
    unfolding round_mag_at [OF assms(1,2)] assms(3) by (rule assms(4))
  ultimately show ?thesis using assms(5) by (simp add: rnd_def Let_def)
qed

lemma num_0_1: "num (1 / 10) = Finite False (3602879701896397 / 2 ^ 55)"
  unfolding num_def by (rule rnd_near [where k = "- 4" and n = 7205759403792794]) simp_all

lemma dmul_3_0_1: "dmul (num 3) (num (1 / 10)) = Finite False (1351079888211149 / 2 ^ 52)"
proof -
  have "rne (10808639105689191 / 2) = 5404319552844596"
    using rne_half [of "10808639105689191 / 2" 5404319552844595] by simp
  then have "rnd False (3 * (3602879701896397 / 2 ^ 55)) = Finite False (1351079888211149 / 2 ^ 52)"
    by (intro rnd_at [where k = "- 2" and n = 5404319552844596]) simp_all
  then show ?thesis unfolding num_0_1 by (simp add: num_numeral)
qed

text \<open>
  Two requests without discount and tax.  Quantity 3 at the rate 0.1: the stored amount is
  the double 0.30000000000000004, which is not the exact product of the stored quantity
  and rate.  Quantity 2 at the rate \<open>2^1023\<close>: the product is beyond the largest double,
  so the amount, the subtotal and the total are stored as \<open>null\<close> next to a
  discountAmount of 0, where subtotal * 0 / 100 is not a number.
\<close>

theorem post_invoice_f64_rounding_and_overflow:
  "map jt_quantity (j_items rounding_result) = [Some (Finite False 3)]
   \<and> map jt_rate (j_items rounding_result) = [Some (Finite False (3602879701896397 / 2 ^ 55))]
   \<and> map jt_amount (j_items rounding_result) = [Some (Finite False (1351079888211149 / 2 ^ 52))]
   \<and> (1351079888211149 / 2 ^ 52 :: rat) \<noteq> 3 * (3602879701896397 / 2 ^ 55)
   \<and> map jt_quantity (j_items overflow_result) = [Some (num 2)]
   \<and> map jt_rate (j_items overflow_result) = [Some (Finite False (2 ^ 1023))]
   \<and> map jt_amount (j_items overflow_result) = [None]
   \<and> j_subtotal overflow_result = None
   \<and> j_discount overflow_result = Some (num 0)
   \<and> j_discountAmount overflow_result = Some (num 0)
   \<and> j_total overflow_result = None
   \<and> reduce_subtotal_f64 [line_f64_of (num 2) (Finite False (2 ^ 1023))] = Infinity False
   \<and> ddiv (dmul (Infinity False) (num 0)) (num 100) = NaN"
proof -
  have c3: "''c1'' \<noteq> []"
    and c4: "clientDb_findById (clients_f64 db0_f64) ''c1'' = Some acme"
    by (simp_all add: clientDb_findById_def db0_f64_def acme_def)
  have e0: "invoices_f64 db0_f64 = []" by (simp add: db0_f64_def)
  let ?rts = "[line_f64_of (num 3) (num (1 / 10))]"
  have g1: "r_clientId rounding_body = Some ''c1''" and g4: "r_items rounding_body = Some ?rts"
    by (simp_all add: rounding_body_def empty_body_f64_def del: num_0)
  have g5: "?rts \<noteq> []" by simp
  from post_invoice_f64_created [OF g1 c3 c4 g4 g5, of env0] obtain rv where
    rres: "post_invoice_f64 env0 db0_f64 rounding_body =
           (Response 201 ''Invoice created successfully'' (Some rv),
            db0_f64\<lparr>invoices_f64 := invoices_f64 db0_f64 @ [rv]\<rparr>)"
    and ritems: "j_items rv = map_items_f64 ?rts"
    by blast
  have rr: "rounding_result = rv" unfolding rounding_result_def rres using e0 by simp
  have j3: "json_of (num 3) = Some (Finite False 3)" by (simp add: num_numeral json_of_def)
  have j01: "json_of (num (1 / 10)) = Some (Finite False (3602879701896397 / 2 ^ 55))"
    unfolding num_0_1 by (simp add: json_of_def)
  have j03: "json_of (dmul (num 3) (num (1 / 10))) = Some (Finite False (1351079888211149 / 2 ^ 52))"
    unfolding dmul_3_0_1 by (simp add: json_of_def)
  have rounding: "map jt_quantity (j_items rv) = [Some (Finite False 3)]"
    "map jt_rate (j_items rv) = [Some (Finite False (3602879701896397 / 2 ^ 55))]"
    "map jt_amount (j_items rv) = [Some (Finite False (1351079888211149 / 2 ^ 52))]"
    unfolding ritems map_items_f64_fields
    by (simp_all only: line_f64_of_def list.map line_f64.select_convs j3 j01 j03)
  have inexact: "(1351079888211149 / 2 ^ 52 :: rat) \<noteq> 3 * (3602879701896397 / 2 ^ 55)"
    by simp
  let ?its = "[line_f64_of (num 2) (Finite False (2 ^ 1023))]"
  have h1: "r_clientId overflow_body = Some ''c1''"
    and h4: "r_items overflow_body = Some ?its"
    and h6: "r_discount overflow_body = None" and h7: "r_tax overflow_body = None"
    by (simp_all add: overflow_body_def empty_body_f64_def del: num_0)
  have h2: "''c1'' \<noteq> []" and h5: "?its \<noteq> []" by simp_all
  have h3: "clientDb_findById (clients_f64 db0_f64) ''c1'' = Some acme"
    by (simp add: clientDb_findById_def db0_f64_def acme_def)
  have inf: "json_of (Infinity False) = None" by (simp add: json_of_def)
  have "reduce_subtotal_f64 ?its = dadd (num 0) (dmul (num 2) (Finite False (2 ^ 1023)))"
    by (simp only: reduce_subtotal_f64_def line_f64_of_def foldl.simps line_f64.select_convs)
  also have "\<dots> = dadd (Finite False 0) (Infinity False)" by (simp only: dmul_overflow num_0)
  also have "\<dots> = Infinity False" by simp
  finally have S: "reduce_subtotal_f64 ?its = Infinity False" .
  from post_invoice_f64_created [OF h1 h2 h3 h4 h5, of env0] obtain iv where
    res: "post_invoice_f64 env0 db0_f64 overflow_body =
           (Response 201 ''Invoice created successfully'' (Some iv),
            db0_f64\<lparr>invoices_f64 := invoices_f64 db0_f64 @ [iv]\<rparr>)"
    and items: "j_items iv = map_items_f64 ?its"
    and sub: "j_subtotal iv = json_of (reduce_subtotal_f64 ?its)"
    and disc: "j_discount iv = json_of (num_or_0 (r_discount overflow_body))"
    and da: "j_discountAmount iv = json_of
              (if truthy_opt (r_discount overflow_body)
               then ddiv (dmul (reduce_subtotal_f64 ?its) (the (r_discount overflow_body))) (num 100)
               else num 0)"
    and tot: "j_total iv = json_of
              (dadd (dsub (reduce_subtotal_f64 ?its)
                 (if truthy_opt (r_discount overflow_body)
                  then ddiv (dmul (reduce_subtotal_f64 ?its) (the (r_discount overflow_body))) (num 100)
                  else num 0))
               (if truthy_opt (r_tax overflow_body)
                then ddiv (dmul (dsub (reduce_subtotal_f64 ?its)
                      (if truthy_opt (r_discount overflow_body)
                       then ddiv (dmul (reduce_subtotal_f64 ?its) (the (r_discount overflow_body))) (num 100)
                       else num 0)) (the (r_tax overflow_body))) (num 100)
                else num 0))"
    by blast
  have "invoices_f64 db0_f64 = []" by (simp add: db0_f64_def)
  then have r: "overflow_result = iv"
    unfolding overflow_result_def res by simp
  have two: "json_of (num 2) = Some (num 2)" by (simp add: num_numeral json_of_def)
  have big: "json_of (Finite False (2 ^ 1023)) = Some (Finite False (2 ^ 1023))"
    by (simp add: json_of_def)
  have zero: "json_of (num 0) = Some (num 0)" by (simp add: json_of_def)
  have "map jt_quantity (j_items iv) = [Some (num 2)]"
    "map jt_rate (j_items iv) = [Some (Finite False (2 ^ 1023))]"
    "map jt_amount (j_items iv) = [None]"
    unfolding items map_items_f64_fields
    by (simp_all only: line_f64_of_def list.map line_f64.select_convs two big dmul_overflow inf)
  moreover have "j_subtotal iv = None" unfolding sub S by (simp add: json_of_def)
  moreover have "j_discount iv = Some (num 0)"
    unfolding disc h6 by (simp add: num_or_0_def json_of_def)
  moreover have "j_discountAmount iv = Some (num 0)"
    unfolding da h6 by (simp add: truthy_opt_def json_of_def)
  moreover have "j_total iv = None"
    unfolding tot h6 h7 S by (simp add: truthy_opt_def dsub_def json_of_def)
  moreover have "ddiv (dmul (Infinity False) (num 0)) (num 100) = NaN" by simp
  ultimately show ?thesis unfolding r rr using S rounding inexact by blast
qed

end
